theory Spec2Isabelle
  imports Complex_Main "HOL-Library.Sublist" "HOL-Library.Multiset"
begin

section \<open>Data model\<close>


record employee =
  employee_id :: int
  position :: string

text \<open>A row of the project/hours table; its \<^verbatim>\<open>employee_id\<close> column is \<open>asg_employee_id\<close>.\<close>

record assignment =
  project_id :: int
  asg_employee_id :: int
  hours_worked :: real

record rate_card =
  rate_position :: string
  rate_per_hour :: real

text \<open>
  A row of \<^verbatim>\<open>merged_df\<close>. The columns \<^verbatim>\<open>position\<close>, \<^verbatim>\<open>rate_per_hour\<close> and
  \<^verbatim>\<open>payment\<close> are added one after the other by the transformer; a column that is not
  there yet, or whose join found no partner, holds \<^const>\<open>None\<close>.
\<close>

record merged_row =
  m_project_id :: int
  m_employee_id :: int
  m_hours_worked :: real
  m_position :: "string option"
  m_rate_per_hour :: "real option"
  payment :: "real option"

text \<open>A row of \<^verbatim>\<open>fot_df\<close>, the aggregate pushed under the key \<^verbatim>\<open>fot_stats\<close>.\<close>

record fot_row =
  fot_project_id :: int
  total_hours :: real
  total_payment :: real

datatype py_error =
    KeyError string
  | ValueError string
  | TypeError string
  | DatabaseError string
  | MailError string
  | OverflowError string

section \<open>Transformer\<close>

text \<open>
  \<^verbatim>\<open>pd.merge(projects_df, employees_df, on='employee_id', how='left')\<close>: every row of the
  left table is kept, in order; it is paired with every right row of the same key, and
  with a null \<^verbatim>\<open>position\<close> when there is none.
\<close>

definition merge_on_employee_id :: "assignment list \<Rightarrow> employee list \<Rightarrow> merged_row list" where
  "merge_on_employee_id projects_df employees_df =
     concat (map (\<lambda>p.
       (case filter (\<lambda>e. employee_id e = asg_employee_id p) employees_df of
          [] \<Rightarrow> [\<lparr>m_project_id = project_id p, m_employee_id = asg_employee_id p,
                  m_hours_worked = hours_worked p, m_position = None,
                  m_rate_per_hour = None, payment = None\<rparr>]
        | ms \<Rightarrow> map (\<lambda>e. \<lparr>m_project_id = project_id p, m_employee_id = asg_employee_id p,
                  m_hours_worked = hours_worked p, m_position = Some (position e),
                  m_rate_per_hour = None, payment = None\<rparr>) ms)) projects_df)"

text \<open>
  \<^verbatim>\<open>pd.merge(merged_df, rates_df, on='position', how='left')\<close>. The rate table's
  \<^verbatim>\<open>position\<close> is a string, so a null position of the left table has no partner.
\<close>

definition merge_on_position :: "merged_row list \<Rightarrow> rate_card list \<Rightarrow> merged_row list" where
  "merge_on_position merged_df rates_df =
     concat (map (\<lambda>m.
       (case filter (\<lambda>r. Some (rate_position r) = m_position m) rates_df of
          [] \<Rightarrow> [m\<lparr>m_rate_per_hour := None\<rparr>]
        | rs \<Rightarrow> map (\<lambda>r. m\<lparr>m_rate_per_hour := Some (rate_per_hour r)\<rparr>) rs)) merged_df)"

text \<open>\<^verbatim>\<open>merged_df['payment'] = merged_df['hours_worked'] * merged_df['rate_per_hour']\<close>:
  the product is null where the rate is. It is the exact product: where both columns
  hold integers and no rate is missing pandas multiplies in \<^verbatim>\<open>int64\<close>, and a product
  outside the signed 64-bit range wraps around there (see the data model).\<close>

definition with_payment :: "merged_row list \<Rightarrow> merged_row list" where
  "with_payment merged_df =
     map (\<lambda>m. m\<lparr>payment := map_option (\<lambda>r. m_hours_worked m * r) (m_rate_per_hour m)\<rparr>) merged_df"

text \<open>
  \<^verbatim>\<open>groupby('project_id').agg(total_hours=('hours_worked','sum'),
  total_payment=('payment','sum')).reset_index()\<close>: one row per key, keys in ascending
  order; \<^verbatim>\<open>sum\<close> skips nulls, and the sum of no values is 0.
\<close>

definition group_of :: "int \<Rightarrow> merged_row list \<Rightarrow> merged_row list" where
  "group_of k merged_df = filter (\<lambda>m. m_project_id m = k) merged_df"

definition agg_row :: "int \<Rightarrow> merged_row list \<Rightarrow> fot_row" where
  "agg_row k merged_df =
     \<lparr>fot_project_id = k,
      total_hours = sum_list (map m_hours_worked (group_of k merged_df)),
      total_payment = sum_list (List.map_filter payment (group_of k merged_df))\<rparr>"

definition groupby_agg :: "merged_row list \<Rightarrow> fot_row list" where
  "groupby_agg merged_df =
     map (\<lambda>k. agg_row k merged_df) (sort (remdups (map m_project_id merged_df)))"

text \<open>Lines 128 to 131 of the source: the two joins and the payment column.\<close>

definition merged_payment_df ::
    "assignment list \<Rightarrow> employee list \<Rightarrow> rate_card list \<Rightarrow> merged_row list" where
  "merged_payment_df projects_df employees_df rates_df =
     with_payment (merge_on_position (merge_on_employee_id projects_df employees_df) rates_df)"

text \<open>
  \<^verbatim>\<open>transform_data\<close>. \<^verbatim>\<open>pd.DataFrame\<close> of an empty list of records has no columns, so a
  merge on a column of it raises \<^verbatim>\<open>KeyError\<close>; the handler prints and re-raises.
\<close>

definition transform_data ::
    "employee list \<Rightarrow> assignment list \<Rightarrow> rate_card list \<Rightarrow> py_error + fot_row list" where
  "transform_data employees_data projects_data rates_data =
     (if projects_data = [] \<or> employees_data = [] then Inl (KeyError ''employee_id'')
      else if rates_data = [] then Inl (KeyError ''position'')
      else Inr (groupby_agg (merged_payment_df projects_data employees_data rates_data)))"



definition spec_total_hours :: "assignment list \<Rightarrow> int \<Rightarrow> real" where
  "spec_total_hours as p = sum_list (map hours_worked (filter (\<lambda>a. project_id a = p) as))"

text \<open>
  The wrap-around the model leaves out, for reference. Line 131 and the sum of lines 133
  to 136 as pandas computes them for the rows of one project when hours and rates are
  integer columns and no rate is missing: every product and the sum are taken in
  \<^verbatim>\<open>int64\<close>, that is modulo \<open>2^64\<close> into the signed range.
\<close>

definition wrap_int64 :: "int \<Rightarrow> int" where
  "wrap_int64 x = (x + 9223372036854775808) mod 18446744073709551616 - 9223372036854775808"

definition int64_payment_total :: "(int \<times> int) list \<Rightarrow> int" where
  "int64_payment_total rows = wrap_int64 (sum_list (map (\<lambda>(h, r). wrap_int64 (h * r)) rows))"




section \<open>Text constants of the source\<close>

text \<open>
  Python strings are modelled by their UTF-8 encoding, one \<^typ>\<open>char\<close> per byte: the
  literals below are the bytes of the literals of \<^verbatim>\<open>fot_analysis_dag.py\<close>.
\<close>

text \<open>The message of the \<^verbatim>\<open>ValueError\<close> of line 165.\<close>

definition no_data_message :: string where
  "no_data_message =
     [CHR 0xD0, CHR 0x9D, CHR 0xD0, CHR 0xB5, CHR 0xD1, CHR 0x82] @ '' '' @ [CHR 0xD0, CHR 0xB4,
      CHR 0xD0, CHR 0xB0, CHR 0xD0, CHR 0xBD, CHR 0xD0, CHR 0xBD, CHR 0xD1, CHR 0x8B, CHR 0xD1,
      CHR 0x85] @ '' '' @ [CHR 0xD0, CHR 0xB4, CHR 0xD0, CHR 0xBB, CHR 0xD1, CHR 0x8F] @ '' '' @
     [CHR 0xD0, CHR 0xB7, CHR 0xD0, CHR 0xB0, CHR 0xD0, CHR 0xB3, CHR 0xD1, CHR 0x80, CHR 0xD1,
      CHR 0x83, CHR 0xD0, CHR 0xB7, CHR 0xD0, CHR 0xBA, CHR 0xD0, CHR 0xB8]"

text \<open>The return value of the loader, line 211, around the number of rows.\<close>

definition loaded_prefix :: string where
  "loaded_prefix =
     [CHR 0xD0, CHR 0x97, CHR 0xD0, CHR 0xB0, CHR 0xD0, CHR 0xB3, CHR 0xD1, CHR 0x80, CHR 0xD1,
      CHR 0x83, CHR 0xD0, CHR 0xB6, CHR 0xD0, CHR 0xB5, CHR 0xD0, CHR 0xBD, CHR 0xD0, CHR 0xBE] @
     '' ''"

definition loaded_suffix :: string where
  "loaded_suffix =
     '' '' @ [CHR 0xD0, CHR 0xB7, CHR 0xD0, CHR 0xB0, CHR 0xD0, CHR 0xBF, CHR 0xD0, CHR 0xB8,
      CHR 0xD1, CHR 0x81, CHR 0xD0, CHR 0xB5, CHR 0xD0, CHR 0xB9]"

text \<open>The header of the text report, lines 248 to 254: title, rule and the label of the
  date; the label of the row count; the blank line.\<close>

definition report_head_a :: string where
  "report_head_a =
     [CHR 0x0A, CHR 0xD0, CHR 0x9E, CHR 0xD0, CHR 0xA2, CHR 0xD0, CHR 0xA7, CHR 0xD0, CHR 0x95,
      CHR 0xD0, CHR 0xA2] @ '' '' @ [CHR 0xD0, CHR 0x9F, CHR 0xD0, CHR 0x9E] @ '' '' @ [CHR 0xD0,
      CHR 0xA4, CHR 0xD0, CHR 0x9E, CHR 0xD0, CHR 0x9D, CHR 0xD0, CHR 0x94, CHR 0xD0, CHR 0xA3] @
     '' '' @ [CHR 0xD0, CHR 0x9E, CHR 0xD0, CHR 0x9F, CHR 0xD0, CHR 0x9B, CHR 0xD0, CHR 0x90,
      CHR 0xD0, CHR 0xA2, CHR 0xD0, CHR 0xAB] @ '' '' @ [CHR 0xD0, CHR 0xA2, CHR 0xD0, CHR 0xA0,
      CHR 0xD0, CHR 0xA3, CHR 0xD0, CHR 0x94, CHR 0xD0, CHR 0x90] @ '' '' @ [CHR 0xD0, CHR 0x9F,
      CHR 0xD0, CHR 0x9E] @ '' '' @ [CHR 0xD0, CHR 0x9F, CHR 0xD0, CHR 0xA0, CHR 0xD0, CHR 0x9E,
      CHR 0xD0, CHR 0x95, CHR 0xD0, CHR 0x9A, CHR 0xD0, CHR 0xA2, CHR 0xD0, CHR 0x90, CHR 0xD0,
      CHR 0x9C, CHR 0x0A] @ ''===================================================='' @ [CHR 0x0A,
      CHR 0xD0, CHR 0x94, CHR 0xD0, CHR 0xB0, CHR 0xD1, CHR 0x82, CHR 0xD0, CHR 0xB0] @ '' '' @
     [CHR 0xD0, CHR 0xB0, CHR 0xD0, CHR 0xBD, CHR 0xD0, CHR 0xB0, CHR 0xD0, CHR 0xBB, CHR 0xD0,
      CHR 0xB8, CHR 0xD0, CHR 0xB7, CHR 0xD0, CHR 0xB0] @ '': ''"

definition report_head_b :: string where
  "report_head_b =
     [CHR 0x0A, CHR 0xD0, CHR 0x92, CHR 0xD1, CHR 0x81, CHR 0xD0, CHR 0xB5, CHR 0xD0, CHR 0xB3,
      CHR 0xD0, CHR 0xBE] @ '' '' @ [CHR 0xD0, CHR 0xBF, CHR 0xD1, CHR 0x80, CHR 0xD0, CHR 0xBE,
      CHR 0xD0, CHR 0xB5, CHR 0xD0, CHR 0xBA, CHR 0xD1, CHR 0x82, CHR 0xD0, CHR 0xBE, CHR 0xD0,
      CHR 0xB2] @ '': ''"

definition report_head_c :: string where
  "report_head_c =
     [CHR 0x0A, CHR 0x0A]"

text \<open>The block of one project in the text report, lines 257 to 261.\<close>

definition report_block_a :: string where
  "report_block_a =
     [CHR 0x0A, CHR 0xD0, CHR 0x9F, CHR 0xD1, CHR 0x80, CHR 0xD0, CHR 0xBE, CHR 0xD0, CHR 0xB5,
      CHR 0xD0, CHR 0xBA, CHR 0xD1, CHR 0x82] @ '' ''"

definition report_block_b :: string where
  "report_block_b =
     '':'' @ [CHR 0x0A] @ ''- '' @ [CHR 0xD0, CHR 0xBE, CHR 0xD0, CHR 0xB1, CHR 0xD1, CHR 0x89,
      CHR 0xD0, CHR 0xB8, CHR 0xD0, CHR 0xB5] @ '' '' @ [CHR 0xD0, CHR 0xA7, CHR 0xD0, CHR 0xB0,
      CHR 0xD1, CHR 0x81, CHR 0xD1, CHR 0x8B] @ '': ''"

definition report_block_c :: string where
  "report_block_c =
     [CHR 0x0A] @ ''- '' @ [CHR 0xD0, CHR 0xBE, CHR 0xD0, CHR 0xB1, CHR 0xD1, CHR 0x89, CHR 0xD0,
      CHR 0xB8, CHR 0xD0, CHR 0xB9] @ '' '' @ [CHR 0xD0, CHR 0xA4, CHR 0xD0, CHR 0x9E, CHR 0xD0,
      CHR 0xA2] @ '': ''"

definition report_block_d :: string where
  "report_block_d =
     [CHR 0x0A]"

text \<open>The return value of the report generator, line 291.\<close>

definition report_created_message :: string where
  "report_created_message =
     [CHR 0xD0, CHR 0x9E, CHR 0xD1, CHR 0x82, CHR 0xD1, CHR 0x87, CHR 0xD0, CHR 0xB5, CHR 0xD1,
      CHR 0x82] @ '' '' @ [CHR 0xD1, CHR 0x83, CHR 0xD1, CHR 0x81, CHR 0xD0, CHR 0xBF, CHR 0xD0,
      CHR 0xB5, CHR 0xD1, CHR 0x88, CHR 0xD0, CHR 0xBD, CHR 0xD0, CHR 0xBE] @ '' '' @ [CHR 0xD1,
      CHR 0x81, CHR 0xD0, CHR 0xBE, CHR 0xD0, CHR 0xB7, CHR 0xD0, CHR 0xB4, CHR 0xD0, CHR 0xB0,
      CHR 0xD0, CHR 0xBD]"

text \<open>The fixed paths of the two output files, lines 272 and 279 (and 418, 419).\<close>

definition report_file :: string where
  "report_file =
     ''/opt/airflow/project_fot_report.txt''"

definition csv_file :: string where
  "csv_file =
     ''/opt/airflow/project_fot_data.csv''"

text \<open>The HTML of the notification, lines 368 to 414: the head up to the run date, the rest
  of the head, a table row around its three cells, and the tail (a plain string: its
  braces are not substituted).\<close>

definition html_head_a :: string where
  "html_head_a =
     [CHR 0x0A] @ ''        <h2> '' @ [CHR 0xD0, CHR 0x90, CHR 0xD0, CHR 0xBD, CHR 0xD0, CHR 0xB0,
      CHR 0xD0, CHR 0xBB, CHR 0xD0, CHR 0xB8, CHR 0xD0, CHR 0xB7] @ '' '' @ [CHR 0xD0, CHR 0xA4,
      CHR 0xD0, CHR 0x9E, CHR 0xD0, CHR 0xA2] @ '' '' @ [CHR 0xD0, CHR 0xBF, CHR 0xD0, CHR 0xBE] @
     '' '' @ [CHR 0xD0, CHR 0xBF, CHR 0xD1, CHR 0x80, CHR 0xD0, CHR 0xBE, CHR 0xD0, CHR 0xB5,
      CHR 0xD0, CHR 0xBA, CHR 0xD1, CHR 0x82, CHR 0xD0, CHR 0xB0, CHR 0xD0, CHR 0xBC] @ ''</h2>'' @
     [CHR 0x0A, CHR 0x0A] @ ''        <h3>'' @ [CHR 0xD0, CHR 0xB8, CHR 0xD0, CHR 0xBD, CHR 0xD1,
      CHR 0x84, CHR 0xD0, CHR 0xBE, CHR 0xD1, CHR 0x80, CHR 0xD0, CHR 0xBC, CHR 0xD0, CHR 0xB0,
      CHR 0xD1, CHR 0x86, CHR 0xD0, CHR 0xB8, CHR 0xD1, CHR 0x8F] @ '' '' @ [CHR 0xD0, CHR 0xBE] @
     '' '' @ [CHR 0xD0, CHR 0xB2, CHR 0xD1, CHR 0x8B, CHR 0xD0, CHR 0xBF, CHR 0xD0, CHR 0xBE,
      CHR 0xD0, CHR 0xBB, CHR 0xD0, CHR 0xBD, CHR 0xD0, CHR 0xB5, CHR 0xD0, CHR 0xBD, CHR 0xD0,
      CHR 0xB8, CHR 0xD0, CHR 0xB8] @ '' </h3>'' @ [CHR 0x0A] @ ''        <ul> '' @ [CHR 0x0A] @
     ''            <li><strong>DAG:</strong> analysis fot </li>'' @ [CHR 0x0A] @
     ''            <li><strong>'' @ [CHR 0xD0, CHR 0x94, CHR 0xD0, CHR 0xB0, CHR 0xD1, CHR 0x82,
      CHR 0xD0, CHR 0xB0] @ '' '' @ [CHR 0xD0, CHR 0xB2, CHR 0xD1, CHR 0x8B, CHR 0xD0, CHR 0xBF,
      CHR 0xD0, CHR 0xBE, CHR 0xD0, CHR 0xBB, CHR 0xD0, CHR 0xBD, CHR 0xD0, CHR 0xB5, CHR 0xD0,
      CHR 0xBD, CHR 0xD0, CHR 0xB8, CHR 0xD1, CHR 0x8F] @ '':</strong> ''"

definition html_head_b :: string where
  "html_head_b =
     ''</li>'' @ [CHR 0x0A] @ ''            <li><strong>'' @ [CHR 0xD0, CHR 0xA1, CHR 0xD1,
      CHR 0x82, CHR 0xD0, CHR 0xB0, CHR 0xD1, CHR 0x82, CHR 0xD1, CHR 0x83, CHR 0xD1, CHR 0x81] @
     '':</strong> '' @ [CHR 0xE2, CHR 0x9C, CHR 0x85] @ '' '' @ [CHR 0xD0, CHR 0x92, CHR 0xD1,
      CHR 0x81, CHR 0xD0, CHR 0xB5] @ '' '' @ [CHR 0xD0, CHR 0xB7, CHR 0xD0, CHR 0xB0, CHR 0xD0,
      CHR 0xB4, CHR 0xD0, CHR 0xB0, CHR 0xD1, CHR 0x87, CHR 0xD0, CHR 0xB8] @ '' '' @ [CHR 0xD0,
      CHR 0xB2, CHR 0xD1, CHR 0x8B, CHR 0xD0, CHR 0xBF, CHR 0xD0, CHR 0xBE, CHR 0xD0, CHR 0xBB,
      CHR 0xD0, CHR 0xBD, CHR 0xD0, CHR 0xB5, CHR 0xD0, CHR 0xBD, CHR 0xD1, CHR 0x8B] @ '' '' @
     [CHR 0xD0, CHR 0xB1, CHR 0xD0, CHR 0xB5, CHR 0xD0, CHR 0xB7] @ '' '' @ [CHR 0xD0, CHR 0xBE,
      CHR 0xD1, CHR 0x88, CHR 0xD0, CHR 0xB8, CHR 0xD0, CHR 0xB1, CHR 0xD0, CHR 0xBE, CHR 0xD0,
      CHR 0xBA] @ ''</li>'' @ [CHR 0x0A] @ ''            <li><strong>'' @ [CHR 0xD0, CHR 0xA0,
      CHR 0xD0, CHR 0xB5, CHR 0xD0, CHR 0xB7, CHR 0xD1, CHR 0x83, CHR 0xD0, CHR 0xBB, CHR 0xD1,
      CHR 0x8C, CHR 0xD1, CHR 0x82, CHR 0xD0, CHR 0xB0, CHR 0xD1, CHR 0x82, CHR 0xD1, CHR 0x8B] @
     '':</strong> '' @ [CHR 0xD0, CHR 0xA1, CHR 0xD0, CHR 0xBE, CHR 0xD1, CHR 0x85, CHR 0xD1,
      CHR 0x80, CHR 0xD0, CHR 0xB0, CHR 0xD0, CHR 0xBD, CHR 0xD0, CHR 0xB5, CHR 0xD0, CHR 0xBD,
      CHR 0xD1, CHR 0x8B] @ '' '' @ [CHR 0xD0, CHR 0xB2] @ '' '' @ [CHR 0xD0, CHR 0xB1, CHR 0xD0,
      CHR 0xB0, CHR 0xD0, CHR 0xB7, CHR 0xD0, CHR 0xB5] @ '' '' @ [CHR 0xD0, CHR 0xB4, CHR 0xD0,
      CHR 0xB0, CHR 0xD0, CHR 0xBD, CHR 0xD0, CHR 0xBD, CHR 0xD1, CHR 0x8B, CHR 0xD1, CHR 0x85] @
     '' SQLite</li>'' @ [CHR 0x0A] @ ''        </ul>'' @ [CHR 0x0A, CHR 0x0A] @ ''        '' @
     [CHR 0x0A] @ ''        <h3>'' @ [CHR 0xF0, CHR 0x9F, CHR 0x93, CHR 0x88] @ '' '' @ [CHR 0xD0,
      CHR 0x9A, CHR 0xD1, CHR 0x80, CHR 0xD0, CHR 0xB0, CHR 0xD1, CHR 0x82, CHR 0xD0, CHR 0xBA,
      CHR 0xD0, CHR 0xB8, CHR 0xD0, CHR 0xB5] @ '' '' @ [CHR 0xD1, CHR 0x80, CHR 0xD0, CHR 0xB5,
      CHR 0xD0, CHR 0xB7, CHR 0xD1, CHR 0x83, CHR 0xD0, CHR 0xBB, CHR 0xD1, CHR 0x8C, CHR 0xD1,
      CHR 0x82, CHR 0xD0, CHR 0xB0, CHR 0xD1, CHR 0x82, CHR 0xD1, CHR 0x8B] @ '' '' @ [CHR 0xD0,
      CHR 0xB0, CHR 0xD0, CHR 0xBD, CHR 0xD0, CHR 0xB0, CHR 0xD0, CHR 0xBB, CHR 0xD0, CHR 0xB8,
      CHR 0xD0, CHR 0xB7, CHR 0xD0, CHR 0xB0] @ ''::</h3>'' @ [CHR 0x0A] @
     ''        <table border='' @ [CHR 0x22] @ ''1'' @ [CHR 0x22] @ '' style='' @ [CHR 0x22] @
     ''border-collapse: collapse; width: 100%;'' @ [CHR 0x22] @ ''>'' @ [CHR 0x0A] @
     ''            <tr style='' @ [CHR 0x22] @ ''background-color: #f2f2f2;'' @ [CHR 0x22] @
     ''>'' @ [CHR 0x0A] @ ''                <th>project_id</th>'' @ [CHR 0x0A] @
     ''                <th>total_hours</th>'' @ [CHR 0x0A] @
     ''                <th>total_payment</th>'' @ [CHR 0x0A] @ ''            </tr>'' @ [CHR 0x0A] @
     ''        ''"

definition html_row_a :: string where
  "html_row_a =
     [CHR 0x0A] @ ''            <tr>'' @ [CHR 0x0A] @ ''                <td>''"

definition html_row_b :: string where
  "html_row_b =
     ''</td>'' @ [CHR 0x0A] @ ''                <td>''"

definition html_row_c :: string where
  "html_row_c =
     ''</td>'' @ [CHR 0x0A] @ ''                <td>''"

definition html_row_d :: string where
  "html_row_d =
     ''</td>'' @ [CHR 0x0A] @ ''            </tr>'' @ [CHR 0x0A] @ ''            ''"

definition html_tail :: string where
  "html_tail =
     [CHR 0x0A] @ ''        </table>'' @ [CHR 0x0A] @ ''        '' @ [CHR 0x0A] @
     ''        <h3>'' @ [CHR 0xF0, CHR 0x9F, CHR 0x93, CHR 0x8E] @ '' '' @ [CHR 0xD0, CHR 0x9F,
      CHR 0xD1, CHR 0x80, CHR 0xD0, CHR 0xB8, CHR 0xD0, CHR 0xBA, CHR 0xD1, CHR 0x80, CHR 0xD0,
      CHR 0xB5, CHR 0xD0, CHR 0xBF, CHR 0xD0, CHR 0xBB, CHR 0xD0, CHR 0xB5, CHR 0xD0, CHR 0xBD,
      CHR 0xD0, CHR 0xBD, CHR 0xD1, CHR 0x8B, CHR 0xD0, CHR 0xB5] @ '' '' @ [CHR 0xD1, CHR 0x84,
      CHR 0xD0, CHR 0xB0, CHR 0xD0, CHR 0xB9, CHR 0xD0, CHR 0xBB, CHR 0xD1, CHR 0x8B] @
     '':</h3>'' @ [CHR 0x0A] @ ''        <ul>'' @ [CHR 0x0A] @
     ''            <li><strong>project_fot_report.txt</strong> - '' @ [CHR 0xD0, CHR 0x9F,
      CHR 0xD0, CHR 0xBE, CHR 0xD0, CHR 0xB4, CHR 0xD1, CHR 0x80, CHR 0xD0, CHR 0xBE, CHR 0xD0,
      CHR 0xB1, CHR 0xD0, CHR 0xBD, CHR 0xD1, CHR 0x8B, CHR 0xD0, CHR 0xB9] @ '' '' @ [CHR 0xD1,
      CHR 0x82, CHR 0xD0, CHR 0xB5, CHR 0xD0, CHR 0xBA, CHR 0xD1, CHR 0x81, CHR 0xD1, CHR 0x82,
      CHR 0xD0, CHR 0xBE, CHR 0xD0, CHR 0xB2, CHR 0xD1, CHR 0x8B, CHR 0xD0, CHR 0xB9] @ '' '' @
     [CHR 0xD0, CHR 0xBE, CHR 0xD1, CHR 0x82, CHR 0xD1, CHR 0x87, CHR 0xD0, CHR 0xB5, CHR 0xD1,
      CHR 0x82] @ ''</li>'' @ [CHR 0x0A] @
     ''            <li><strong>project_fot_data.csv</strong> - '' @ [CHR 0xD0, CHR 0x94, CHR 0xD0,
      CHR 0xB0, CHR 0xD0, CHR 0xBD, CHR 0xD0, CHR 0xBD, CHR 0xD1, CHR 0x8B, CHR 0xD0, CHR 0xB5] @
     '' '' @ [CHR 0xD0, CHR 0xB2] @ '' '' @ [CHR 0xD1, CHR 0x84, CHR 0xD0, CHR 0xBE, CHR 0xD1,
      CHR 0x80, CHR 0xD0, CHR 0xBC, CHR 0xD0, CHR 0xB0, CHR 0xD1, CHR 0x82, CHR 0xD0, CHR 0xB5] @
     '' CSV</li>'' @ [CHR 0x0A] @ ''        </ul>'' @ [CHR 0x0A] @ ''        '' @ [CHR 0x0A] @
     ''        <p><em>'' @ [CHR 0xD0, CHR 0x94, CHR 0xD0, CHR 0xB5, CHR 0xD1, CHR 0x82, CHR 0xD0,
      CHR 0xB0, CHR 0xD0, CHR 0xBB, CHR 0xD1, CHR 0x8C, CHR 0xD0, CHR 0xBD, CHR 0xD1, CHR 0x8B,
      CHR 0xD0, CHR 0xB9] @ '' '' @ [CHR 0xD0, CHR 0xBE, CHR 0xD1, CHR 0x82, CHR 0xD1, CHR 0x87,
      CHR 0xD0, CHR 0xB5, CHR 0xD1, CHR 0x82] @ '' '' @ [CHR 0xD1, CHR 0x82, CHR 0xD0, CHR 0xB0,
      CHR 0xD0, CHR 0xBA, CHR 0xD0, CHR 0xB6, CHR 0xD0, CHR 0xB5] @ '' '' @ [CHR 0xD0, CHR 0xB4,
      CHR 0xD0, CHR 0xBE, CHR 0xD1, CHR 0x81, CHR 0xD1, CHR 0x82, CHR 0xD1, CHR 0x83, CHR 0xD0,
      CHR 0xBF, CHR 0xD0, CHR 0xB5, CHR 0xD0, CHR 0xBD] @ '' '' @ [CHR 0xD0, CHR 0xB2] @ '' '' @
     [CHR 0xD0, CHR 0xBB, CHR 0xD0, CHR 0xBE, CHR 0xD0, CHR 0xB3, CHR 0xD0, CHR 0xB0, CHR 0xD1,
      CHR 0x85] @ '' '' @ [CHR 0xD0, CHR 0xB7, CHR 0xD0, CHR 0xB0, CHR 0xD0, CHR 0xB4, CHR 0xD0,
      CHR 0xB0, CHR 0xD1, CHR 0x87, CHR 0xD0, CHR 0xB8] @ '' generate_report '' @ [CHR 0xD0,
      CHR 0xB2] @ '' Airflow UI.</em></p>'' @ [CHR 0x0A] @ ''        '' @ [CHR 0x0A] @
     ''        <hr>'' @ [CHR 0x0A] @ ''        <p style='' @ [CHR 0x22] @
     ''color: #666; font-size: 12px;'' @ [CHR 0x22] @ ''>'' @ [CHR 0x0A] @ ''            '' @
     [CHR 0xD0, CHR 0xAD, CHR 0xD1, CHR 0x82, CHR 0xD0, CHR 0xBE] @ '' '' @ [CHR 0xD0, CHR 0xB0,
      CHR 0xD0, CHR 0xB2, CHR 0xD1, CHR 0x82, CHR 0xD0, CHR 0xBE, CHR 0xD0, CHR 0xBC, CHR 0xD0,
      CHR 0xB0, CHR 0xD1, CHR 0x82, CHR 0xD0, CHR 0xB8, CHR 0xD1, CHR 0x87, CHR 0xD0, CHR 0xB5,
      CHR 0xD1, CHR 0x81, CHR 0xD0, CHR 0xBA, CHR 0xD0, CHR 0xBE, CHR 0xD0, CHR 0xB5] @ '' '' @
     [CHR 0xD1, CHR 0x83, CHR 0xD0, CHR 0xB2, CHR 0xD0, CHR 0xB5, CHR 0xD0, CHR 0xB4, CHR 0xD0,
      CHR 0xBE, CHR 0xD0, CHR 0xBC, CHR 0xD0, CHR 0xBB, CHR 0xD0, CHR 0xB5, CHR 0xD0, CHR 0xBD,
      CHR 0xD0, CHR 0xB8, CHR 0xD0, CHR 0xB5] @ '' '' @ [CHR 0xD0, CHR 0xBE, CHR 0xD1, CHR 0x82] @
     '' '' @ [CHR 0xD1, CHR 0x81, CHR 0xD0, CHR 0xB8, CHR 0xD1, CHR 0x81, CHR 0xD1, CHR 0x82,
      CHR 0xD0, CHR 0xB5, CHR 0xD0, CHR 0xBC, CHR 0xD1, CHR 0x8B] @ '' Apache Airflow<br>'' @
     [CHR 0x0A] @ ''            '' @ [CHR 0xD0, CHR 0x92, CHR 0xD1, CHR 0x80, CHR 0xD0, CHR 0xB5,
      CHR 0xD0, CHR 0xBC, CHR 0xD1, CHR 0x8F] @ '' '' @ [CHR 0xD0, CHR 0xBE, CHR 0xD1, CHR 0x82,
      CHR 0xD0, CHR 0xBF, CHR 0xD1, CHR 0x80, CHR 0xD0, CHR 0xB0, CHR 0xD0, CHR 0xB2, CHR 0xD0,
      CHR 0xBA, CHR 0xD0, CHR 0xB8] @ '': {datetime.now().strftime('' @ [CHR 0x27] @
     ''%Y-%m-%d %H:%M:%S'' @ [CHR 0x27] @ '')}'' @ [CHR 0x0A] @ ''        </p>'' @ [CHR 0x0A] @
     ''        ''"

text \<open>Subject and return value of the notification, lines 433 and 439.\<close>

definition mail_subject :: string where
  "mail_subject =
     [CHR 0xF0, CHR 0x9F, CHR 0x93, CHR 0x88] @ '' '' @ [CHR 0xD0, CHR 0xA4, CHR 0xD0, CHR 0x9E,
      CHR 0xD0, CHR 0xA2] @ '' '' @ [CHR 0xD0, CHR 0xBF, CHR 0xD0, CHR 0xBE] @ '' '' @ [CHR 0xD0,
      CHR 0xBF, CHR 0xD1, CHR 0x80, CHR 0xD0, CHR 0xBE, CHR 0xD0, CHR 0xB5, CHR 0xD0, CHR 0xBA,
      CHR 0xD1, CHR 0x82, CHR 0xD0, CHR 0xB0, CHR 0xD0, CHR 0xBC] @ '' '' @ [CHR 0xE2, CHR 0x80,
      CHR 0x94] @ '' '' @ [CHR 0xD0, CHR 0xBE, CHR 0xD1, CHR 0x82, CHR 0xD1, CHR 0x87, CHR 0xD0,
      CHR 0xB5, CHR 0xD1, CHR 0x82]"

definition mail_sent_message :: string where
  "mail_sent_message =
     ''Email '' @ [CHR 0xD0, CHR 0xBE, CHR 0xD1, CHR 0x82, CHR 0xD0, CHR 0xBF, CHR 0xD1, CHR 0x80,
      CHR 0xD0, CHR 0xB0, CHR 0xD0, CHR 0xB2, CHR 0xD0, CHR 0xBB, CHR 0xD0, CHR 0xB5, CHR 0xD0,
      CHR 0xBD] @ '' '' @ [CHR 0xD1, CHR 0x81] @ '' '' @ [CHR 0xD0, CHR 0xBF, CHR 0xD1, CHR 0x80,
      CHR 0xD0, CHR 0xB8, CHR 0xD0, CHR 0xBA, CHR 0xD1, CHR 0x80, CHR 0xD0, CHR 0xB5, CHR 0xD0,
      CHR 0xBF, CHR 0xD0, CHR 0xBB, CHR 0xD0, CHR 0xB5, CHR 0xD0, CHR 0xBD, CHR 0xD0, CHR 0xBD,
      CHR 0xD1, CHR 0x8B, CHR 0xD0, CHR 0xBC, CHR 0xD0, CHR 0xB8] @ '' '' @ [CHR 0xD1, CHR 0x84,
      CHR 0xD0, CHR 0xB0, CHR 0xD0, CHR 0xB9, CHR 0xD0, CHR 0xBB, CHR 0xD0, CHR 0xB0, CHR 0xD0,
      CHR 0xBC, CHR 0xD0, CHR 0xB8]"

text \<open>Subject and body of the message sent by the handler, lines 450 to 457: the body is
  cut at the run date and at the text of the error.\<close>

definition fallback_subject :: string where
  "fallback_subject =
     [CHR 0xE2, CHR 0x9A, CHR 0xA0, CHR 0xEF, CHR 0xB8, CHR 0x8F] @ '' '' @ [CHR 0xD0, CHR 0x90,
      CHR 0xD0, CHR 0xBD, CHR 0xD0, CHR 0xB0, CHR 0xD0, CHR 0xBB, CHR 0xD0, CHR 0xB8, CHR 0xD0,
      CHR 0xB7] @ '' '' @ [CHR 0xD0, CHR 0xA4, CHR 0xD0, CHR 0x9E, CHR 0xD0, CHR 0xA2] @ '' '' @
     [CHR 0xD0, CHR 0xBF, CHR 0xD0, CHR 0xBE] @ '' '' @ [CHR 0xD0, CHR 0xBF, CHR 0xD1, CHR 0x80,
      CHR 0xD0, CHR 0xBE, CHR 0xD0, CHR 0xB5, CHR 0xD0, CHR 0xBA, CHR 0xD1, CHR 0x82, CHR 0xD0,
      CHR 0xB0, CHR 0xD0, CHR 0xBC] @ '' - '' @ [CHR 0xD0, CHR 0x97, CHR 0xD0, CHR 0xB0, CHR 0xD0,
      CHR 0xB2, CHR 0xD0, CHR 0xB5, CHR 0xD1, CHR 0x80, CHR 0xD1, CHR 0x88, CHR 0xD0, CHR 0xB5,
      CHR 0xD0, CHR 0xBD] @ '' ('' @ [CHR 0xD0, CHR 0xB1, CHR 0xD0, CHR 0xB5, CHR 0xD0, CHR 0xB7] @
     '' '' @ [CHR 0xD1, CHR 0x84, CHR 0xD0, CHR 0xB0, CHR 0xD0, CHR 0xB9, CHR 0xD0, CHR 0xBB,
      CHR 0xD0, CHR 0xBE, CHR 0xD0, CHR 0xB2] @ '')''"

definition fallback_body_a :: string where
  "fallback_body_a =
     [CHR 0x0A] @ ''            <h3>'' @ [CHR 0xD0, CHR 0x90, CHR 0xD0, CHR 0xBD, CHR 0xD0,
      CHR 0xB0, CHR 0xD0, CHR 0xBB, CHR 0xD0, CHR 0xB8, CHR 0xD0, CHR 0xB7] @ '' '' @ [CHR 0xD0,
      CHR 0xA4, CHR 0xD0, CHR 0x9E, CHR 0xD0, CHR 0xA2] @ '' '' @ [CHR 0xD0, CHR 0xBF, CHR 0xD0,
      CHR 0xBE] @ '' '' @ [CHR 0xD0, CHR 0xBF, CHR 0xD1, CHR 0x80, CHR 0xD0, CHR 0xBE, CHR 0xD0,
      CHR 0xB5, CHR 0xD0, CHR 0xBA, CHR 0xD1, CHR 0x82, CHR 0xD0, CHR 0xB0, CHR 0xD0, CHR 0xBC] @
     '' '' @ [CHR 0xD0, CHR 0xB7, CHR 0xD0, CHR 0xB0, CHR 0xD0, CHR 0xB2, CHR 0xD0, CHR 0xB5,
      CHR 0xD1, CHR 0x80, CHR 0xD1, CHR 0x88, CHR 0xD0, CHR 0xB5, CHR 0xD0, CHR 0xBD] @ '' '' @
     [CHR 0xD1, CHR 0x83, CHR 0xD1, CHR 0x81, CHR 0xD0, CHR 0xBF, CHR 0xD0, CHR 0xB5, CHR 0xD1,
      CHR 0x88, CHR 0xD0, CHR 0xBD, CHR 0xD0, CHR 0xBE] @ ''!</h3>'' @ [CHR 0x0A] @
     ''            <p>'' @ [CHR 0xD0, CHR 0x94, CHR 0xD0, CHR 0xB0, CHR 0xD1, CHR 0x82, CHR 0xD0,
      CHR 0xB0] @ '' '' @ [CHR 0xD0, CHR 0xB2, CHR 0xD1, CHR 0x8B, CHR 0xD0, CHR 0xBF, CHR 0xD0,
      CHR 0xBE, CHR 0xD0, CHR 0xBB, CHR 0xD0, CHR 0xBD, CHR 0xD0, CHR 0xB5, CHR 0xD0, CHR 0xBD,
      CHR 0xD0, CHR 0xB8, CHR 0xD1, CHR 0x8F] @ '': ''"

definition fallback_body_b :: string where
  "fallback_body_b =
     ''</p>'' @ [CHR 0x0A] @ ''            <p>'' @ [CHR 0xD0, CHR 0x92, CHR 0xD1, CHR 0x81,
      CHR 0xD0, CHR 0xB5] @ '' '' @ [CHR 0xD0, CHR 0xB7, CHR 0xD0, CHR 0xB0, CHR 0xD0, CHR 0xB4,
      CHR 0xD0, CHR 0xB0, CHR 0xD1, CHR 0x87, CHR 0xD0, CHR 0xB8] @ '' '' @ [CHR 0xD0, CHR 0xB2,
      CHR 0xD1, CHR 0x8B, CHR 0xD0, CHR 0xBF, CHR 0xD0, CHR 0xBE, CHR 0xD0, CHR 0xBB, CHR 0xD0,
      CHR 0xBD, CHR 0xD0, CHR 0xB5, CHR 0xD0, CHR 0xBD, CHR 0xD1, CHR 0x8B] @ '' '' @ [CHR 0xD0,
      CHR 0xB1, CHR 0xD0, CHR 0xB5, CHR 0xD0, CHR 0xB7] @ '' '' @ [CHR 0xD0, CHR 0xBE, CHR 0xD1,
      CHR 0x88, CHR 0xD0, CHR 0xB8, CHR 0xD0, CHR 0xB1, CHR 0xD0, CHR 0xBE, CHR 0xD0, CHR 0xBA] @
     ''.</p>'' @ [CHR 0x0A] @ ''            <p><strong>'' @ [CHR 0xD0, CHR 0x9F, CHR 0xD1,
      CHR 0x80, CHR 0xD0, CHR 0xB8, CHR 0xD0, CHR 0xBC, CHR 0xD0, CHR 0xB5, CHR 0xD1, CHR 0x87,
      CHR 0xD0, CHR 0xB0, CHR 0xD0, CHR 0xBD, CHR 0xD0, CHR 0xB8, CHR 0xD0, CHR 0xB5] @
     '':</strong> '' @ [CHR 0xD0, CHR 0xA4, CHR 0xD0, CHR 0xB0, CHR 0xD0, CHR 0xB9, CHR 0xD0,
      CHR 0xBB, CHR 0xD1, CHR 0x8B] @ '' '' @ [CHR 0xD1, CHR 0x80, CHR 0xD0, CHR 0xB5, CHR 0xD0,
      CHR 0xB7, CHR 0xD1, CHR 0x83, CHR 0xD0, CHR 0xBB, CHR 0xD1, CHR 0x8C, CHR 0xD1, CHR 0x82,
      CHR 0xD0, CHR 0xB0, CHR 0xD1, CHR 0x82, CHR 0xD0, CHR 0xBE, CHR 0xD0, CHR 0xB2] @ '' '' @
     [CHR 0xD0, CHR 0xBD, CHR 0xD0, CHR 0xB5] @ '' '' @ [CHR 0xD1, CHR 0x83, CHR 0xD0, CHR 0xB4,
      CHR 0xD0, CHR 0xB0, CHR 0xD0, CHR 0xBB, CHR 0xD0, CHR 0xBE, CHR 0xD1, CHR 0x81, CHR 0xD1,
      CHR 0x8C] @ '' '' @ [CHR 0xD0, CHR 0xBF, CHR 0xD1, CHR 0x80, CHR 0xD0, CHR 0xB8, CHR 0xD0,
      CHR 0xBA, CHR 0xD1, CHR 0x80, CHR 0xD0, CHR 0xB5, CHR 0xD0, CHR 0xBF, CHR 0xD0, CHR 0xB8,
      CHR 0xD1, CHR 0x82, CHR 0xD1, CHR 0x8C] @ '' '' @ [CHR 0xD0, CHR 0xB8, CHR 0xD0, CHR 0xB7] @
     ''-'' @ [CHR 0xD0, CHR 0xB7, CHR 0xD0, CHR 0xB0] @ '' '' @ [CHR 0xD0, CHR 0xBE, CHR 0xD1,
      CHR 0x88, CHR 0xD0, CHR 0xB8, CHR 0xD0, CHR 0xB1, CHR 0xD0, CHR 0xBA, CHR 0xD0, CHR 0xB8] @
     '': ''"

definition fallback_body_c :: string where
  "fallback_body_c =
     ''</p>'' @ [CHR 0x0A] @ ''            <p>'' @ [CHR 0xD0, CHR 0xA0, CHR 0xD0, CHR 0xB5,
      CHR 0xD0, CHR 0xB7, CHR 0xD1, CHR 0x83, CHR 0xD0, CHR 0xBB, CHR 0xD1, CHR 0x8C, CHR 0xD1,
      CHR 0x82, CHR 0xD0, CHR 0xB0, CHR 0xD1, CHR 0x82, CHR 0xD1, CHR 0x8B] @ '' '' @ [CHR 0xD0,
      CHR 0xB4, CHR 0xD0, CHR 0xBE, CHR 0xD1, CHR 0x81, CHR 0xD1, CHR 0x82, CHR 0xD1, CHR 0x83,
      CHR 0xD0, CHR 0xBF, CHR 0xD0, CHR 0xBD, CHR 0xD1, CHR 0x8B] @ '' '' @ [CHR 0xD0, CHR 0xB2] @
     '' '' @ [CHR 0xD0, CHR 0xBB, CHR 0xD0, CHR 0xBE, CHR 0xD0, CHR 0xB3, CHR 0xD0, CHR 0xB0,
      CHR 0xD1, CHR 0x85] @ '' '' @ [CHR 0xD0, CHR 0xB7, CHR 0xD0, CHR 0xB0, CHR 0xD0, CHR 0xB4,
      CHR 0xD0, CHR 0xB0, CHR 0xD1, CHR 0x87, CHR 0xD0, CHR 0xB8] @ '' generate_report.</p>'' @
     [CHR 0x0A] @ ''            ''"

section \<open>Formatting\<close>

text \<open>\<^verbatim>\<open>str\<close> of a Python integer: its decimal digits, with a minus sign when negative.\<close>

definition digit_char :: "nat \<Rightarrow> char" where
  "digit_char d = char_of (48 + d)"

fun str_nat :: "nat \<Rightarrow> string" where
  "str_nat n = (if n < 10 then [digit_char n] else str_nat (n div 10) @ [digit_char (n mod 10)])"

declare str_nat.simps [simp del]

definition str_int :: "int \<Rightarrow> string" where
  "str_int i = (if i < 0 then ''-'' @ str_nat (nat (- i)) else str_nat (nat i))"

text \<open>
  The format \<^verbatim>\<open>:.2f\<close>: the number rounded to two decimals (the nearest, a tie going to the
  even neighbour, as Python rounds the exact value of the float), written with its sign,
  its integer part and exactly two digits after the point.
\<close>

definition round_half_even :: "real \<Rightarrow> int" where
  "round_half_even y =
     (let f = \<lfloor>y\<rfloor>; d = y - of_int f
      in if d < 1 / 2 then f else if 1 / 2 < d then f + 1 else if even f then f else f + 1)"

definition hundredths :: "real \<Rightarrow> nat" where
  "hundredths x = nat (round_half_even (\<bar>x\<bar> * 100))"

definition format_2f :: "real \<Rightarrow> string" where
  "format_2f x =
     (if x < 0 then ''-'' else []) @ str_nat (hundredths x div 100) @ ''.'' @
     [digit_char (hundredths x mod 100 div 10), digit_char (hundredths x mod 10)]"

text \<open>
  \<^verbatim>\<open>datetime.now()\<close> is a reading of the clock, passed to the model as a value;
  \<^verbatim>\<open>strftime('%Y-%m-%d %H:%M:%S')\<close> writes it with leading zeros.
\<close>

record datetime =
  dt_year :: nat
  dt_month :: nat
  dt_day :: nat
  dt_hour :: nat
  dt_minute :: nat
  dt_second :: nat

definition zero_pad :: "nat \<Rightarrow> string \<Rightarrow> string" where
  "zero_pad w s = replicate (w - length s) (CHR ''0'') @ s"

definition strftime :: "datetime \<Rightarrow> string" where
  "strftime t =
     zero_pad 4 (str_nat (dt_year t)) @ ''-'' @ zero_pad 2 (str_nat (dt_month t)) @ ''-'' @
     zero_pad 2 (str_nat (dt_day t)) @ '' '' @ zero_pad 2 (str_nat (dt_hour t)) @ '':'' @
     zero_pad 2 (str_nat (dt_minute t)) @ '':'' @ zero_pad 2 (str_nat (dt_second t))"

text \<open>
  \<^verbatim>\<open>str(e)\<close> of an exception is its message; a \<^verbatim>\<open>KeyError\<close> shows its key in quotes.
\<close>

fun str_error :: "py_error \<Rightarrow> string" where
  "str_error (KeyError k) = [CHR 0x27] @ k @ [CHR 0x27]"
| "str_error (ValueError m) = m"
| "str_error (TypeError m) = m"
| "str_error (DatabaseError m) = m"
| "str_error (MailError m) = m"
| "str_error (OverflowError m) = m"

section \<open>Loader\<close>

text \<open>
  A row of the table \<^verbatim>\<open>project_fot\<close> (the schema of lines 174 to 182); \<^verbatim>\<open>id\<close> is
  \<open>row_id\<close>, and \<^verbatim>\<open>analysis_date\<close> holds the text of \<^verbatim>\<open>CURRENT_TIMESTAMP\<close>.
\<close>

record fot_db_row =
  row_id :: int
  row_project_id :: int
  row_total_hours :: real
  row_total_payment :: real
  analysis_date :: string

text \<open>
  The table together with its \<^verbatim>\<open>AUTOINCREMENT\<close> counter, the entry of
  \<^verbatim>\<open>sqlite_sequence\<close>: the largest id the table has ever held. A database file in which
  the table does not exist yet is \<^const>\<open>None\<close>. Ids are unbounded integers: the end of
  SQLite's 64-bit range is outside the model.
\<close>

record project_fot =
  table_rows :: "fot_db_row list"
  sqlite_sequence :: int

type_synonym database = "project_fot option"

text \<open>
  A \<^verbatim>\<open>sqlite3\<close> connection: \<open>disk\<close> is the committed state of the file, the state every
  other connection sees and the state that survives when this one is closed or lost;
  \<open>txn\<close> is the working copy of the open transaction, if there is one.
\<close>

record connection =
  disk :: database
  txn :: "database option"

definition connect :: "database \<Rightarrow> connection" where
  "connect db = \<lparr>disk = db, txn = None\<rparr>"

definition view :: "connection \<Rightarrow> database" where
  "view c = (case txn c of None \<Rightarrow> disk c | Some w \<Rightarrow> w)"

text \<open>\<^verbatim>\<open>conn.close()\<close> without a commit drops the open transaction.\<close>

definition close :: "connection \<Rightarrow> database" where
  "close c = disk c"

text \<open>The statements the loader sends, in the order of lines 185 to 194.\<close>

datatype statement =
    CreateTable
  | DeleteAll
  | Insert fot_row string
  | Commit

definition create_table :: "database \<Rightarrow> database" where
  "create_table db =
     (case db of None \<Rightarrow> Some \<lparr>table_rows = [], sqlite_sequence = 0\<rparr> | Some t \<Rightarrow> Some t)"

text \<open>
  An insert that gives no \<^verbatim>\<open>id\<close>: \<^verbatim>\<open>AUTOINCREMENT\<close> takes one more than the largest id
  the table holds or has ever held, and \<^verbatim>\<open>analysis_date\<close> takes its default, the time
  of the insert.
\<close>

definition next_id :: "project_fot \<Rightarrow> int" where
  "next_id t = fold max (map row_id (table_rows t)) (sqlite_sequence t) + 1"

definition insert_row :: "fot_row \<Rightarrow> string \<Rightarrow> project_fot \<Rightarrow> project_fot" where
  "insert_row r now t =
     \<lparr>table_rows = table_rows t @
        [\<lparr>row_id = next_id t, row_project_id = fot_project_id r,
          row_total_hours = total_hours r, row_total_payment = total_payment r,
          analysis_date = now\<rparr>],
      sqlite_sequence = next_id t\<rparr>"

definition no_such_table :: string where
  "no_such_table = ''no such table: project_fot''"

text \<open>
  One statement on a connection. Python's \<^verbatim>\<open>sqlite3\<close> opens a transaction by itself before
  a \<^verbatim>\<open>DELETE\<close> or an \<^verbatim>\<open>INSERT\<close> when none is open, and not before \<^verbatim>\<open>CREATE TABLE\<close>,
  which therefore is committed at once.
\<close>

fun execute :: "statement \<Rightarrow> connection \<Rightarrow> py_error + connection" where
  "execute CreateTable c =
     Inr (case txn c of
            None \<Rightarrow> c\<lparr>disk := create_table (disk c)\<rparr>
          | Some w \<Rightarrow> c\<lparr>txn := Some (create_table w)\<rparr>)"
| "execute DeleteAll c =
     (case view c of
        None \<Rightarrow> Inl (DatabaseError no_such_table)
      | Some t \<Rightarrow> Inr (c\<lparr>txn := Some (Some (t\<lparr>table_rows := []\<rparr>))\<rparr>))"
| "execute (Insert r now) c =
     (case view c of
        None \<Rightarrow> Inl (DatabaseError no_such_table)
      | Some t \<Rightarrow> Inr (c\<lparr>txn := Some (Some (insert_row r now t))\<rparr>))"
| "execute Commit c =
     Inr (case txn c of None \<Rightarrow> c | Some w \<Rightarrow> c\<lparr>disk := w, txn := None\<rparr>)"

text \<open>Statements one after the other, up to the first that raises.\<close>

fun run :: "statement list \<Rightarrow> connection \<Rightarrow> py_error option \<times> connection" where
  "run [] c = (None, c)"
| "run (s # ss) c = (case execute s c of Inl e \<Rightarrow> (Some e, c) | Inr c' \<Rightarrow> run ss c')"

text \<open>
  \<^verbatim>\<open>df.to_sql('project_fot', conn, if_exists='append', index=False)\<close> on a \<^verbatim>\<open>sqlite3\<close>
  connection, the table being there: one insert per row of the frame, in order, then the
  commit pandas itself makes when the inserts are done. (When an insert raises, pandas
  rolls the transaction back and raises again; for the file that is what closing the
  connection without a commit does.)
\<close>

definition to_sql :: "fot_row list \<Rightarrow> string \<Rightarrow> statement list" where
  "to_sql df now = map (\<lambda>r. Insert r now) df @ [Commit]"

definition loader_statements :: "fot_row list \<Rightarrow> string \<Rightarrow> statement list" where
  "loader_statements df now = [CreateTable, DeleteAll] @ to_sql df now @ [Commit]"

definition loaded_message :: "nat \<Rightarrow> string" where
  "loaded_message n = loaded_prefix @ str_nat n @ loaded_suffix"

text \<open>
  \<^verbatim>\<open>load_to_database\<close>: \<open>fot_stats\<close> is what \<^verbatim>\<open>xcom_pull\<close> returns (\<^const>\<open>None\<close> when
  nothing was pushed), \<open>now\<close> the text of the current time, \<open>db\<close> the database file
  before the call. The result is the return value or the exception, and the file after
  the call. \<^verbatim>\<open>not fot_stats\<close> holds of \<^verbatim>\<open>None\<close> and of the empty list. The connection is
  closed on every path (\<^verbatim>\<open>finally\<close>); the read-back of lines 200 to 204 is only printed.
\<close>

definition load_to_database ::
    "fot_row list option \<Rightarrow> string \<Rightarrow> database \<Rightarrow> (py_error + string) \<times> database" where
  "load_to_database fot_stats now db =
     (case fot_stats of
        None \<Rightarrow> (Inl (ValueError no_data_message), db)
      | Some df \<Rightarrow>
          if df = [] then (Inl (ValueError no_data_message), db)
          else (case run (loader_statements df now) (connect db) of
                  (Some e, c) \<Rightarrow> (Inl e, close c)
                | (None, c) \<Rightarrow> (Inr (loaded_message (length df)), close c)))"

text \<open>
  The file when the process stops (is killed, or a statement fails) after the first
  \<open>k\<close> statements of a run: what was committed by then.
\<close>

definition interrupted_after :: "nat \<Rightarrow> fot_row list \<Rightarrow> string \<Rightarrow> database \<Rightarrow> database" where
  "interrupted_after k df now db = close (snd (run (take k (loader_statements df now)) (connect db)))"




definition rows_of :: "database \<Rightarrow> fot_db_row list" where
  "rows_of db = (case db of None \<Rightarrow> [] | Some t \<Rightarrow> table_rows t)"

text \<open>The three columns of a stored row that come from the aggregate.\<close>

definition row_data :: "fot_db_row \<Rightarrow> fot_row" where
  "row_data r =
     \<lparr>fot_project_id = row_project_id r, total_hours = row_total_hours r,
      total_payment = row_total_payment r\<rparr>"

text \<open>
  The table a run leaves, written out: the rows of the frame in order, with the ids that
  follow the counter \<open>s\<close> of the table before the run.
\<close>

fun new_rows :: "int \<Rightarrow> string \<Rightarrow> fot_row list \<Rightarrow> fot_db_row list" where
  "new_rows s now [] = []"
| "new_rows s now (r # rs) =
     \<lparr>row_id = s + 1, row_project_id = fot_project_id r, row_total_hours = total_hours r,
      row_total_payment = total_payment r, analysis_date = now\<rparr> # new_rows (s + 1) now rs"

definition sequence_of :: "database \<Rightarrow> int" where
  "sequence_of db = (case db of None \<Rightarrow> 0 | Some t \<Rightarrow> sqlite_sequence t)"

definition loaded :: "fot_row list \<Rightarrow> string \<Rightarrow> database \<Rightarrow> project_fot" where
  "loaded df now db =
     \<lparr>table_rows = new_rows (sequence_of db) now df,
      sqlite_sequence = sequence_of db + int (length df)\<rparr>"

text \<open>A one-row aggregate and two clock readings, for the examples.\<close>

definition sample_fot :: "fot_row list" where
  "sample_fot = [\<lparr>fot_project_id = 1, total_hours = 10, total_payment = 500\<rparr>]"


definition sample_time :: string where
  "sample_time = ''2025-01-01 00:00:00''"

definition later_time :: string where
  "later_time = ''2025-01-02 00:00:00''"

section \<open>Report generator\<close>

text \<open>
  \<^verbatim>\<open>SELECT * FROM project_fot ORDER BY total_payment DESC\<close>, read into a frame: the rows
  of the table in descending order of \<^verbatim>\<open>total_payment\<close> (rows of equal payment in
  their stored order), or \<^verbatim>\<open>DatabaseError\<close> when the table does not exist.
\<close>

definition read_sql :: "connection \<Rightarrow> py_error + fot_db_row list" where
  "read_sql c =
     (case view c of
        None \<Rightarrow> Inl (DatabaseError no_such_table)
      | Some t \<Rightarrow> Inr (sort_key (\<lambda>r. - row_total_payment r) (table_rows t)))"

text \<open>
  The text report. \<open>float_str\<close> stands for Python's \<^verbatim>\<open>str\<close> of a float (the shortest
  decimal that reads back as the same float), which the model of numbers as reals cannot
  define; the row count and the project id are integers, the payment is formatted
  with \<^verbatim>\<open>:.2f\<close>.
\<close>

definition report_header :: "datetime \<Rightarrow> nat \<Rightarrow> string" where
  "report_header now n =
     report_head_a @ strftime now @ report_head_b @ str_nat n @ report_head_c"

definition report_block :: "(real \<Rightarrow> string) \<Rightarrow> fot_db_row \<Rightarrow> string" where
  "report_block float_str row =
     report_block_a @ str_int (row_project_id row) @ report_block_b @
     float_str (row_total_hours row) @ report_block_c @
     format_2f (row_total_payment row) @ report_block_d"

text \<open>
  \<^verbatim>\<open>df.to_csv(csv_file, index=False, encoding='utf-8')\<close>: the line of the column names,
  then one line per row; a field is quoted when it holds a comma, a quote or a line
  break.
\<close>

definition csv_field :: "string \<Rightarrow> string" where
  "csv_field s =
     (if list_ex (\<lambda>c. c \<in> {CHR '','', CHR 0x22, CHR 0x0D, CHR 0x0A}) s
      then [CHR 0x22] @ concat (map (\<lambda>c. if c = CHR 0x22 then [c, c] else [c]) s) @ [CHR 0x22]
      else s)"

fun csv_join :: "string list \<Rightarrow> string" where
  "csv_join [] = []"
| "csv_join [f] = f"
| "csv_join (f # fs) = f @ '','' @ csv_join fs"

definition csv_header :: string where
  "csv_header = ''id,project_id,total_hours,total_payment,analysis_date''"

definition csv_line :: "(real \<Rightarrow> string) \<Rightarrow> fot_db_row \<Rightarrow> string" where
  "csv_line float_str row =
     csv_join [str_int (row_id row), str_int (row_project_id row),
       float_str (row_total_hours row), float_str (row_total_payment row),
       csv_field (analysis_date row)] @ [CHR 0x0A]"

definition to_csv :: "(real \<Rightarrow> string) \<Rightarrow> fot_db_row list \<Rightarrow> string" where
  "to_csv float_str df = csv_header @ [CHR 0x0A] @ concat (map (csv_line float_str) df)"

text \<open>The files of the host, by path, and what the report generator pushes for the notifier.\<close>

type_synonym filesystem = "string \<rightharpoonup> string"

record report_xcom =
  xcom_report :: string
  xcom_report_file_path :: string
  xcom_csv_file_path :: string
  xcom_result_data :: "fot_db_row list"

text \<open>
  \<^verbatim>\<open>generate_report\<close>: the loop of lines 256 to 261 appends one block per row to the
  header; both files are written, whatever was there; the connection is closed on every
  path. The result is the exception of the query, or the return value with the files
  and the pushed values.
\<close>

definition generate_report ::
    "(real \<Rightarrow> string) \<Rightarrow> datetime \<Rightarrow> database \<Rightarrow> filesystem \<Rightarrow>
     py_error + string \<times> filesystem \<times> report_xcom" where
  "generate_report float_str now db fs =
     (case read_sql (connect db) of
        Inl e \<Rightarrow> Inl e
      | Inr df \<Rightarrow>
          let report = fold (\<lambda>row report. report @ report_block float_str row) df
                         (report_header now (length df));
              fs' = fs(report_file \<mapsto> report);
              fs'' = fs'(csv_file \<mapsto> to_csv float_str df)
          in Inr (report_created_message, fs'',
                  \<lparr>xcom_report = report, xcom_report_file_path = report_file,
                   xcom_csv_file_path = csv_file, xcom_result_data = df\<rparr>))"

section \<open>Notifier\<close>

record email =
  mail_to :: "string list"
  subject :: string
  html_content :: string
  files :: "string list"

definition recipients :: "string list" where
  "recipients = [''test@example.com'']"

text \<open>The message of the \<^verbatim>\<open>TypeError\<close> of a loop over \<^verbatim>\<open>None\<close>.\<close>

definition not_iterable_message :: string where
  "not_iterable_message = [CHR 0x27] @ ''NoneType'' @ [CHR 0x27] @ '' object is not iterable''"

text \<open>
  Lines 368 to 414: the head with the run date \<open>ds\<close>, one table row per record of
  \<open>result_data\<close>, the tail. \<open>result_data\<close> is what \<^verbatim>\<open>xcom_pull\<close> returns; the loop over
  \<^verbatim>\<open>None\<close> raises.
\<close>

definition html_row :: "(real \<Rightarrow> string) \<Rightarrow> fot_db_row \<Rightarrow> string" where
  "html_row float_str row =
     html_row_a @ str_int (row_project_id row) @ html_row_b @
     float_str (row_total_hours row) @ html_row_c @
     format_2f (row_total_payment row) @ html_row_d"

definition compose_html ::
    "(real \<Rightarrow> string) \<Rightarrow> string \<Rightarrow> fot_db_row list option \<Rightarrow> py_error + string" where
  "compose_html float_str ds result_data =
     (case result_data of
        None \<Rightarrow> Inl (TypeError not_iterable_message)
      | Some rows \<Rightarrow>
          Inr (fold (\<lambda>row html. html @ html_row float_str row) rows
                 (html_head_a @ ds @ html_head_b) @ html_tail))"

text \<open>Lines 418 to 429: of the two fixed files, those that exist, in this order.\<close>

definition attachments :: "(string \<Rightarrow> bool) \<Rightarrow> string list" where
  "attachments path_exists =
     (if path_exists report_file then [report_file] else []) @
     (if path_exists csv_file then [csv_file] else [])"

definition report_mail :: "string \<Rightarrow> string list \<Rightarrow> email" where
  "report_mail html fs =
     \<lparr>mail_to = recipients, subject = mail_subject, html_content = html, files = fs\<rparr>"

text \<open>The message of the handler, lines 448 to 458: no files, the text of the error in the body.\<close>

definition fallback_mail :: "string \<Rightarrow> py_error \<Rightarrow> email" where
  "fallback_mail ds e =
     \<lparr>mail_to = recipients, subject = fallback_subject,
      html_content = fallback_body_a @ ds @ fallback_body_b @ str_error e @ fallback_body_c,
      files = []\<rparr>"

text \<open>
  The body of \<^verbatim>\<open>try\<close>. \<open>transport\<close> is the mail system behind \<^verbatim>\<open>send_email\<close>: for a
  message, \<^const>\<open>None\<close> when it is sent, or the exception \<^verbatim>\<open>send_email\<close> raises.
\<close>

definition try_send ::
    "(real \<Rightarrow> string) \<Rightarrow> (email \<Rightarrow> py_error option) \<Rightarrow> (string \<Rightarrow> bool) \<Rightarrow> string \<Rightarrow>
     fot_db_row list option \<Rightarrow> py_error + email" where
  "try_send float_str transport path_exists ds result_data =
     (case compose_html float_str ds result_data of
        Inl e \<Rightarrow> Inl e
      | Inr html \<Rightarrow>
          let mail = report_mail html (attachments path_exists)
          in (case transport mail of Some e \<Rightarrow> Inl e | None \<Rightarrow> Inr mail))"

text \<open>
  \<^verbatim>\<open>send_email_with_attachments\<close>: the result is the return value or the exception that
  leaves the function, and the messages sent. In the handler the second \<^verbatim>\<open>send_email\<close>
  comes before the bare \<^verbatim>\<open>raise\<close>: when it raises, its exception leaves the function.
\<close>

definition send_email_with_attachments ::
    "(real \<Rightarrow> string) \<Rightarrow> (email \<Rightarrow> py_error option) \<Rightarrow> (string \<Rightarrow> bool) \<Rightarrow> string \<Rightarrow>
     fot_db_row list option \<Rightarrow> (py_error + string) \<times> email list" where
  "send_email_with_attachments float_str transport path_exists ds result_data =
     (case try_send float_str transport path_exists ds result_data of
        Inr mail \<Rightarrow> (Inr mail_sent_message, [mail])
      | Inl e \<Rightarrow>
          (case transport (fallback_mail ds e) of
             Some e' \<Rightarrow> (Inl e', [])
           | None \<Rightarrow> (Inl e, [fallback_mail ds e])))"

section \<open>Properties of the transformer\<close>

subsection \<open>The joins, row by row\<close>

lemma merge_on_employee_id_append:
  "merge_on_employee_id (xs @ ys) es = merge_on_employee_id xs es @ merge_on_employee_id ys es"
  by (simp add: merge_on_employee_id_def)

lemma merge_on_position_append:
  "merge_on_position (xs @ ys) rs = merge_on_position xs rs @ merge_on_position ys rs"
  by (simp add: merge_on_position_def)

lemma with_payment_append: "with_payment (xs @ ys) = with_payment xs @ with_payment ys"
  by (simp add: with_payment_def)

lemma merged_payment_df_append:
  "merged_payment_df (xs @ ys) es rs = merged_payment_df xs es rs @ merged_payment_df ys es rs"
  by (simp add: merged_payment_df_def merge_on_employee_id_append merge_on_position_append
      with_payment_append)

lemma merged_payment_df_Nil: "merged_payment_df [] es rs = []"
  by (simp add: merged_payment_df_def merge_on_employee_id_def merge_on_position_def
      with_payment_def)

lemma merged_payment_df_Cons:
  "merged_payment_df (p # ps) es rs = merged_payment_df [p] es rs @ merged_payment_df ps es rs"
  using merged_payment_df_append [of "[p]" ps es rs] by simp

lemma position_rows_keep:
  "m' \<in> set (case filter P rs of [] \<Rightarrow> [m\<lparr>m_rate_per_hour := None\<rparr>]
        | rs' \<Rightarrow> map (\<lambda>r. m\<lparr>m_rate_per_hour := Some (rate_per_hour r)\<rparr>) rs') \<Longrightarrow>
     m_project_id m' = m_project_id m \<and> m_hours_worked m' = m_hours_worked m"
  by (cases "filter P rs") auto

lemma merge_on_position_keeps:
  "m' \<in> set (merge_on_position ms rs) \<Longrightarrow>
     \<exists>m \<in> set ms. m_project_id m' = m_project_id m \<and> m_hours_worked m' = m_hours_worked m"
  unfolding merge_on_position_def using position_rows_keep by fastforce

lemma merge_on_employee_id_keeps:
  "m \<in> set (merge_on_employee_id [p] es) \<Longrightarrow>
     m_project_id m = project_id p \<and> m_hours_worked m = hours_worked p"
  by (auto simp: merge_on_employee_id_def split: list.splits)

lemma merged_single_keeps:
  assumes "m \<in> set (merged_payment_df [p] es rs)"
  shows "m_project_id m = project_id p" and "m_hours_worked m = hours_worked p"
  using assms merge_on_position_keeps merge_on_employee_id_keeps
  by (fastforce simp: merged_payment_df_def with_payment_def)+

lemma merge_on_position_nonempty: "ms \<noteq> [] \<Longrightarrow> merge_on_position ms rs \<noteq> []"
  by (cases ms) (auto simp: merge_on_position_def split: list.splits)

lemma merged_single_nonempty: "merged_payment_df [p] es rs \<noteq> []"
proof -
  have "merge_on_employee_id [p] es \<noteq> []"
    by (auto simp: merge_on_employee_id_def split: list.splits)
  then show ?thesis
    by (simp add: merged_payment_df_def with_payment_def merge_on_position_nonempty)
qed


lemma merged_project_ids:
  "set (map m_project_id (merged_payment_df ps es rs)) = project_id ` set ps"
proof (induction ps)
  case Nil
  show ?case by (simp add: merged_payment_df_Nil)
next
  case (Cons p ps)
  have "m_project_id ` set (merged_payment_df [p] es rs) = {project_id p}"
    using merged_single_keeps(1) [of _ p es rs] merged_single_nonempty [of p es rs]
    by (cases "merged_payment_df [p] es rs") auto
  with Cons show ?case
    by (subst merged_payment_df_Cons) (simp add: image_Un)
qed



lemma map_filter_append: "List.map_filter f (xs @ ys) = List.map_filter f xs @ List.map_filter f ys"
  by (simp add: List.map_filter_def)



lemma distinct_count_list_one: "distinct xs \<Longrightarrow> x \<in> set xs \<Longrightarrow> count_list xs x = 1"
  by (induction xs) auto

lemma filter_distinct_eq: "distinct xs \<Longrightarrow> x \<in> set xs \<Longrightarrow> filter (\<lambda>k. k = x) xs = [x]"
proof (induction xs)
  case Nil
  then show ?case by simp
next
  case (Cons y ys)
  show ?case
  proof (cases "y = x")
    case True
    with Cons.prems have "filter (\<lambda>k. k = x) ys = []" by (auto simp: filter_empty_conv)
    with True show ?thesis by simp
  next
    case False
    with Cons show ?thesis by simp
  qed
qed

lemma groupby_agg_project_ids:
  "map fot_project_id (groupby_agg m) = sort (remdups (map m_project_id m))"
  by (simp add: groupby_agg_def agg_row_def comp_def)

lemma merged_unmatched_employee:
  assumes "asg_employee_id a \<notin> employee_id ` set es"
  shows "merged_payment_df [a] es rs =
           [\<lparr>m_project_id = project_id a, m_employee_id = asg_employee_id a,
             m_hours_worked = hours_worked a, m_position = None,
             m_rate_per_hour = None, payment = None\<rparr>]"
proof -
  from assms have "filter (\<lambda>e. employee_id e = asg_employee_id a) es = []"
    unfolding filter_empty_conv by (metis imageI)
  then show ?thesis
    by (simp add: merged_payment_df_def merge_on_employee_id_def merge_on_position_def
        with_payment_def)
qed

lemma agg_row_unmatched:
  assumes "asg_employee_id a \<notin> employee_id ` set es"
  shows "agg_row (project_id a) (merged_payment_df (xs @ a # ys) es rs) =
           (agg_row (project_id a) (merged_payment_df (xs @ ys) es rs))
             \<lparr>total_hours := hours_worked a +
                total_hours (agg_row (project_id a) (merged_payment_df (xs @ ys) es rs))\<rparr>"
proof -
  show ?thesis
    by (simp add: merged_payment_df_append merged_payment_df_Cons [of a ys es rs]
        merged_unmatched_employee [OF assms]
        agg_row_def group_of_def map_filter_append List.map_filter_simps)
qed

lemma transform_data_raises_on_empty:
  "employees = [] \<or> projects = [] \<or> rates = [] \<Longrightarrow>
     transform_data employees projects rates = Inl (KeyError ''employee_id'') \<or>
     transform_data employees projects rates = Inl (KeyError ''position'')"
  by (auto simp: transform_data_def)

subsection \<open>Exact arithmetic and \<^verbatim>\<open>int64\<close>\<close>

text \<open>
  Within the signed 64-bit range the \<^verbatim>\<open>int64\<close> total of pandas is the exact one, also
  when single products wrap around on the way; outside it is not: 4 times \<open>2^62\<close> comes
  out as 0.
\<close>

lemma wrap_int64_in_range:
  "- 9223372036854775808 \<le> x \<Longrightarrow> x < 9223372036854775808 \<Longrightarrow> wrap_int64 x = x"
  unfolding wrap_int64_def by (subst mod_pos_pos_trivial) simp_all

lemma wrap_int64_mod: "wrap_int64 x mod 18446744073709551616 = x mod 18446744073709551616"
proof -
  have "wrap_int64 x mod 18446744073709551616 =
      ((x + 9223372036854775808) mod 18446744073709551616 - 9223372036854775808)
        mod 18446744073709551616"
    by (simp only: wrap_int64_def)
  also have "\<dots> = (x + 9223372036854775808 - 9223372036854775808) mod 18446744073709551616"
    by (rule mod_diff_left_eq)
  finally show ?thesis by simp
qed

lemma sum_wrap_mod:
  "sum_list (map (\<lambda>(h, r). wrap_int64 (h * r)) rows) mod 18446744073709551616 =
   sum_list (map (\<lambda>(h, r). h * r) rows) mod 18446744073709551616"
proof (induction rows)
  case Nil
  show ?case by simp
next
  case (Cons a rows)
  obtain h r where a: "a = (h, r)" by (cases a)
  have "(wrap_int64 (h * r) + sum_list (map (\<lambda>(h, r). wrap_int64 (h * r)) rows))
        mod 18446744073709551616 =
      (h * r + sum_list (map (\<lambda>(h, r). h * r) rows)) mod 18446744073709551616"
    using wrap_int64_mod [of "h * r"] Cons.IH by (rule mod_add_cong)
  then show ?case by (simp only: a list.map sum_list.Cons case_prod_conv)
qed

lemma wrap_int64_mod_cong:
  assumes "x mod 18446744073709551616 = y mod 18446744073709551616"
  shows "wrap_int64 x = wrap_int64 y"
proof -
  have "(x + 9223372036854775808) mod 18446744073709551616 =
      (y + 9223372036854775808) mod 18446744073709551616"
    using assms refl by (rule mod_add_cong)
  then show ?thesis by (simp only: wrap_int64_def)
qed

lemma int64_payment_total_exact:
  assumes "- 9223372036854775808 \<le> sum_list (map (\<lambda>(h, r). h * r) rows)"
    and "sum_list (map (\<lambda>(h, r). h * r) rows) < 9223372036854775808"
  shows "int64_payment_total rows = sum_list (map (\<lambda>(h, r). h * r) rows)"
proof -
  have "int64_payment_total rows = wrap_int64 (sum_list (map (\<lambda>(h, r). h * r) rows))"
    unfolding int64_payment_total_def by (rule wrap_int64_mod_cong) (rule sum_wrap_mod)
  also have "\<dots> = sum_list (map (\<lambda>(h, r). h * r) rows)"
    using assms by (rule wrap_int64_in_range)
  finally show ?thesis .
qed

lemma int64_payment_total_wraps: "int64_payment_total [(4611686018427387904, 4)] = 0"
  by (simp add: int64_payment_total_def wrap_int64_def)

subsection \<open>Totals per project\<close>




text \<open>
  Claim C2, as amended. For every non-empty employee, rate and assignment input, the
  transformer returns a table in which each project id of the assignments occurs
  exactly once, and no other project id occurs. (With an empty roster or an empty rate
  table the transformer raises and there is no output.)
\<close>

theorem transform_one_row_per_project:
  assumes "employees \<noteq> []" and "rates \<noteq> []" and "projects \<noteq> []"
  shows "\<exists>fot. transform_data employees projects rates = Inr fot \<and>
           (\<forall>p \<in> project_id ` set projects. count_list (map fot_project_id fot) p = 1) \<and>
           set (map fot_project_id fot) = project_id ` set projects"
proof -
  let ?m = "merged_payment_df projects employees rates"
  have run: "transform_data employees projects rates = Inr (groupby_agg ?m)"
    using assms by (simp add: transform_data_def)
  have ids: "map fot_project_id (groupby_agg ?m) = sort (remdups (map m_project_id ?m))"
    by (rule groupby_agg_project_ids)
  have s: "set (map fot_project_id (groupby_agg ?m)) = project_id ` set projects"
    unfolding ids using merged_project_ids [of projects employees rates] by simp
  have d: "distinct (map fot_project_id (groupby_agg ?m))"
    unfolding ids by simp
  have "\<forall>p \<in> project_id ` set projects. count_list (map fot_project_id (groupby_agg ?m)) p = 1"
    using distinct_count_list_one [OF d] s by blast
  with run s show ?thesis by blast
qed

theorem transform_one_row_per_project_witness:
  "\<exists>fot. transform_data [\<lparr>employee_id = 1, position = ''developer''\<rparr>]
            [\<lparr>project_id = 7, asg_employee_id = 8, hours_worked = 3\<rparr>,
             \<lparr>project_id = 7, asg_employee_id = 9, hours_worked = 4\<rparr>]
            [\<lparr>rate_position = ''qa'', rate_per_hour = 30\<rparr>] = Inr fot \<and>
         count_list (map fot_project_id fot) 7 = 1"
proof -
  let ?E = "[\<lparr>employee_id = 1, position = ''developer''\<rparr>]"
  let ?R = "[\<lparr>rate_position = ''qa'', rate_per_hour = 30\<rparr>]"
  let ?P = "[\<lparr>project_id = 7, asg_employee_id = 8, hours_worked = 3\<rparr>,
             \<lparr>project_id = 7, asg_employee_id = 9, hours_worked = 4\<rparr>]"
  have "?E \<noteq> []" and "?R \<noteq> []" and "?P \<noteq> []" by simp_all
  from transform_one_row_per_project [OF this] obtain fot
    where "transform_data ?E ?P ?R = Inr fot"
      and "\<forall>p \<in> project_id ` set ?P. count_list (map fot_project_id fot) p = 1"
    by blast
  then show ?thesis by auto
qed

text \<open>
  The claim as stated, for every input: with an empty rate table the second join raises
  \<^verbatim>\<open>KeyError\<close>, and project 1 of the assignments is in no output.
\<close>

theorem transform_empty_rates_counterexample:
  "transform_data [\<lparr>employee_id = 1, position = ''developer''\<rparr>]
     [\<lparr>project_id = 1, asg_employee_id = 1, hours_worked = 10\<rparr>] [] =
   Inl (KeyError ''position'')"
  by (simp add: transform_data_def)

text \<open>
  Claim C3, as amended. With a non-empty roster and a non-empty rate table, an assignment
  \<open>a\<close> whose employee is not in the roster gets a single joined row, with a null
  payment; the output has exactly one row for its project, whose \<^verbatim>\<open>total_hours\<close> is
  \<^verbatim>\<open>hours_worked\<close> of \<open>a\<close> more than the total of the other assignments \<open>xs @ ys\<close>,
  and whose \<^verbatim>\<open>total_payment\<close> is the total of the other assignments.
\<close>

theorem transform_unmatched_employee:
  assumes "employees \<noteq> []" and "rates \<noteq> []"
    and "asg_employee_id a \<notin> employee_id ` set employees"
  shows "map payment (merged_payment_df [a] employees rates) = [None] \<and>
         (\<exists>fot row. transform_data employees (xs @ a # ys) rates = Inr fot \<and>
            filter (\<lambda>r. fot_project_id r = project_id a) fot = [row] \<and>
            total_hours row = hours_worked a +
              total_hours (agg_row (project_id a) (merged_payment_df (xs @ ys) employees rates)) \<and>
            total_payment row =
              total_payment (agg_row (project_id a) (merged_payment_df (xs @ ys) employees rates)))"
proof -
  let ?ps = "xs @ a # ys"
  let ?m = "merged_payment_df ?ps employees rates"
  let ?k = "project_id a"
  have run: "transform_data employees ?ps rates = Inr (groupby_agg ?m)"
    using assms(1,2) by (simp add: transform_data_def)
  have ids: "map fot_project_id (groupby_agg ?m) = sort (remdups (map m_project_id ?m))"
    by (rule groupby_agg_project_ids)
  have mem: "?k \<in> set (sort (remdups (map m_project_id ?m)))"
    using merged_project_ids [of ?ps employees rates] by simp
  have dist: "distinct (sort (remdups (map m_project_id ?m)))" by simp
  have one: "filter (\<lambda>k. k = ?k) (sort (remdups (map m_project_id ?m))) = [?k]"
    using dist mem by (rule filter_distinct_eq)
  have "filter (\<lambda>r. fot_project_id r = ?k) (groupby_agg ?m) = [agg_row ?k ?m]"
    using one by (simp add: groupby_agg_def filter_map comp_def agg_row_def)
  with run show ?thesis
    using merged_unmatched_employee [OF assms(3), of rates] agg_row_unmatched [OF assms(3), of xs ys rates]
    by simp
qed

theorem transform_unmatched_employee_witness:
  "\<exists>fot row.
     transform_data [\<lparr>employee_id = 1, position = ''developer''\<rparr>]
       ([\<lparr>project_id = 7, asg_employee_id = 1, hours_worked = 10\<rparr>] @
        \<lparr>project_id = 7, asg_employee_id = 99, hours_worked = 4\<rparr> # [])
       [\<lparr>rate_position = ''developer'', rate_per_hour = 50\<rparr>] = Inr fot \<and>
     filter (\<lambda>r. fot_project_id r = 7) fot = [row] \<and>
     total_hours row = 14 \<and> total_payment row = 500"
proof -
  have rest: "agg_row 7 (merged_payment_df
      ([\<lparr>project_id = 7, asg_employee_id = 1, hours_worked = 10\<rparr>] @ [])
      [\<lparr>employee_id = 1, position = ''developer''\<rparr>]
      [\<lparr>rate_position = ''developer'', rate_per_hour = 50\<rparr>]) =
      \<lparr>fot_project_id = 7, total_hours = 10, total_payment = 500\<rparr>"
    by (simp add: agg_row_def group_of_def merged_payment_df_def with_payment_def
        merge_on_position_def merge_on_employee_id_def List.map_filter_simps)
  let ?E = "[\<lparr>employee_id = 1, position = ''developer''\<rparr>]"
  let ?R = "[\<lparr>rate_position = ''developer'', rate_per_hour = 50\<rparr>]"
  let ?a = "\<lparr>project_id = 7, asg_employee_id = 99, hours_worked = 4\<rparr>"
  let ?xs = "[\<lparr>project_id = 7, asg_employee_id = 1, hours_worked = 10\<rparr>]"
  have "?E \<noteq> []" and "?R \<noteq> []" and "asg_employee_id ?a \<notin> employee_id ` set ?E"
    by simp_all
  from transform_unmatched_employee [OF this, of ?xs "[]"] obtain fot row
    where "transform_data ?E (?xs @ ?a # []) ?R = Inr fot"
      and "filter (\<lambda>r. fot_project_id r = project_id ?a) fot = [row]"
      and "total_hours row = hours_worked ?a +
             total_hours (agg_row (project_id ?a) (merged_payment_df (?xs @ []) ?E ?R))"
      and "total_payment row =
             total_payment (agg_row (project_id ?a) (merged_payment_df (?xs @ []) ?E ?R))"
    by blast
  then have "transform_data ?E (?xs @ ?a # []) ?R = Inr fot \<and>
     filter (\<lambda>r. fot_project_id r = 7) fot = [row] \<and>
     total_hours row = 14 \<and> total_payment row = 500"
    using rest by simp
  then show ?thesis by blast
qed

text \<open>
  The claim as stated, for every roster: with an empty roster the employee of every
  assignment is absent, the first join raises \<^verbatim>\<open>KeyError\<close>, and no hours are counted.
\<close>

theorem transform_empty_roster_counterexample:
  "asg_employee_id \<lparr>project_id = 2, asg_employee_id = 7, hours_worked = 5\<rparr> \<notin> employee_id ` set [] \<and>
   transform_data [] [\<lparr>project_id = 2, asg_employee_id = 7, hours_worked = 5\<rparr>]
     [\<lparr>rate_position = ''qa'', rate_per_hour = 30\<rparr>] =
   Inl (KeyError ''employee_id'')"
  by (simp add: transform_data_def)

section \<open>Properties of the loader\<close>

subsection \<open>What a run does to a connection\<close>

lemma run_append:
  "run (xs @ ys) c = (case run xs c of (Some e, c') \<Rightarrow> (Some e, c') | (None, c') \<Rightarrow> run ys c')"
  by (induction xs arbitrary: c) (auto split: sum.splits)

lemma fold_max_bound: "\<forall>x \<in> set xs. x \<le> s \<Longrightarrow> fold max xs (s::int) = s"
  by (induction xs) (auto simp: max_def)

lemma next_id_consistent: "\<forall>r \<in> set (table_rows t). row_id r \<le> sqlite_sequence t \<Longrightarrow> next_id t = sqlite_sequence t + 1"
  by (simp add: next_id_def fold_max_bound)

lemma new_rows_ids_gt: "r \<in> set (new_rows s now df) \<Longrightarrow> s < row_id r"
  by (induction df arbitrary: s) fastforce+

lemma new_rows_ids_le: "r \<in> set (new_rows s now df) \<Longrightarrow> row_id r \<le> s + int (length df)"
  by (induction df arbitrary: s) fastforce+

lemma new_rows_data: "map row_data (new_rows s now df) = df"
  by (induction df arbitrary: s) (simp_all add: row_data_def)

lemma new_rows_length: "length (new_rows s now df) = length df"
  by (induction df arbitrary: s) simp_all

lemma new_rows_sorted: "sorted_wrt (<) (map row_id (new_rows s now df))"
proof (induction df arbitrary: s)
  case Nil
  show ?case by simp
next
  case (Cons r rs)
  have "\<forall>x \<in> set (new_rows (s + 1) now rs). s + 1 < row_id x"
    using new_rows_ids_gt by blast
  with Cons show ?case by simp
qed

lemma run_inserts:
  assumes "\<forall>r \<in> set pre. row_id r \<le> s"
  shows "run (map (\<lambda>r. Insert r now) df @ rest)
           \<lparr>disk = d, txn = Some (Some \<lparr>table_rows = pre, sqlite_sequence = s\<rparr>)\<rparr> =
         run rest \<lparr>disk = d, txn = Some (Some \<lparr>table_rows = pre @ new_rows s now df,
           sqlite_sequence = s + int (length df)\<rparr>)\<rparr>"
  using assms
proof (induction df arbitrary: pre s)
  case Nil
  show ?case by simp
next
  case (Cons r rs)
  let ?t = "\<lparr>table_rows = pre, sqlite_sequence = s\<rparr>"
  have n: "next_id ?t = s + 1"
    using Cons.prems next_id_consistent [of ?t] by simp
  let ?row = "\<lparr>row_id = s + 1, row_project_id = fot_project_id r, row_total_hours = total_hours r,
      row_total_payment = total_payment r, analysis_date = now\<rparr>"
  have step: "execute (Insert r now) \<lparr>disk = d, txn = Some (Some ?t)\<rparr> =
      Inr \<lparr>disk = d, txn = Some (Some \<lparr>table_rows = pre @ [?row], sqlite_sequence = s + 1\<rparr>)\<rparr>"
    by (simp add: view_def insert_row_def n)
  have inv: "\<forall>x \<in> set (pre @ [?row]). row_id x \<le> s + 1"
    using Cons.prems by fastforce
  have "run (map (\<lambda>r. Insert r now) (r # rs) @ rest) \<lparr>disk = d, txn = Some (Some ?t)\<rparr> =
      run (map (\<lambda>r. Insert r now) rs @ rest)
        \<lparr>disk = d, txn = Some (Some \<lparr>table_rows = pre @ [?row], sqlite_sequence = s + 1\<rparr>)\<rparr>"
    by (simp only: list.map append_Cons run.simps step sum.case)
  also have "\<dots> = run rest \<lparr>disk = d, txn = Some (Some
      \<lparr>table_rows = (pre @ [?row]) @ new_rows (s + 1) now rs,
       sqlite_sequence = s + 1 + int (length rs)\<rparr>)\<rparr>"
    by (rule Cons.IH [OF inv])
  also have "\<dots> = run rest \<lparr>disk = d, txn = Some (Some
      \<lparr>table_rows = pre @ new_rows s now (r # rs),
       sqlite_sequence = s + int (length (r # rs))\<rparr>)\<rparr>"
    by (simp add: ac_simps)
  finally show ?case .
qed

lemma create_table_Some: "\<exists>t. create_table db = Some t"
  by (cases db) (simp_all add: create_table_def)

lemma run_prefix_create:
  "run (CreateTable # ss) (connect db) = run ss \<lparr>disk = create_table db, txn = None\<rparr>"
  by (simp add: connect_def)

lemma sequence_of_create_table: "create_table db = Some t \<Longrightarrow> sqlite_sequence t = sequence_of db"
  by (cases db) (auto simp: create_table_def sequence_of_def)

lemma run_delete:
  "create_table db = Some t \<Longrightarrow>
   run (DeleteAll # ss) \<lparr>disk = create_table db, txn = None\<rparr> =
   run ss \<lparr>disk = create_table db, txn = Some (Some \<lparr>table_rows = [], sqlite_sequence = sqlite_sequence t\<rparr>)\<rparr>"
  by (cases t) (simp add: view_def)

lemma run_loader:
  "run (loader_statements df now) (connect db) =
     (None, \<lparr>disk = Some (loaded df now db), txn = None\<rparr>)"
proof -
  obtain t where t: "create_table db = Some t" using create_table_Some by blast
  have ins: "run (map (\<lambda>r. Insert r now) df @ [Commit, Commit])
           \<lparr>disk = create_table db, txn = Some (Some \<lparr>table_rows = [], sqlite_sequence = sqlite_sequence t\<rparr>)\<rparr> =
         run [Commit, Commit] \<lparr>disk = create_table db, txn = Some (Some \<lparr>table_rows = [] @ new_rows (sqlite_sequence t) now df,
           sqlite_sequence = sqlite_sequence t + int (length df)\<rparr>)\<rparr>"
    by (rule run_inserts) simp
  have "run (loader_statements df now) (connect db) =
      run (map (\<lambda>r. Insert r now) df @ [Commit, Commit])
           \<lparr>disk = create_table db, txn = Some (Some \<lparr>table_rows = [], sqlite_sequence = sqlite_sequence t\<rparr>)\<rparr>"
    unfolding loader_statements_def to_sql_def
    using run_prefix_create [of "DeleteAll # map (\<lambda>r. Insert r now) df @ [Commit, Commit]" db]
      run_delete [OF t, of "map (\<lambda>r. Insert r now) df @ [Commit, Commit]"]
    by simp
  also have "\<dots> = (None, \<lparr>disk = Some (loaded df now db), txn = None\<rparr>)"
    unfolding ins by (simp add: loaded_def sequence_of_create_table [OF t])
  finally show ?thesis .
qed

lemma load_to_database_nonempty:
  "df \<noteq> [] \<Longrightarrow> load_to_database (Some df) now db =
     (Inr (loaded_message (length df)), Some (loaded df now db))"
  by (simp add: load_to_database_def run_loader close_def)

lemma loaded_rows_data: "map row_data (table_rows (loaded df now db)) = df"
  by (simp add: loaded_def new_rows_data)

lemma rows_of_create_table: "rows_of (create_table db) = rows_of db"
  by (cases db) (simp_all add: rows_of_def create_table_def)

lemma loaded_consistent:
  "r \<in> set (table_rows (loaded df now db)) \<Longrightarrow> row_id r \<le> sqlite_sequence (loaded df now db)"
  by (simp add: loaded_def new_rows_ids_le)

lemma loaded_ids_gt:
  "r \<in> set (table_rows (loaded df now (Some t))) \<Longrightarrow> sqlite_sequence t < row_id r"
  by (simp add: loaded_def sequence_of_def new_rows_ids_gt)

lemma loaded_ids_sorted: "sorted_wrt (<) (map row_id (table_rows (loaded df now db)))"
  by (simp add: loaded_def new_rows_sorted)

lemma take_loader_statements:
  "take k (loader_statements df now) =
     (if k = 0 then [] else if k = 1 then [CreateTable]
      else [CreateTable, DeleteAll] @ map (\<lambda>r. Insert r now) (take (k - 2) df) @
           take (k - 2 - length df) [Commit, Commit])"
  by (cases k; cases "k - 1") (auto simp: loader_statements_def to_sql_def take_map take_Cons')

lemma run_started:
  "run ([CreateTable, DeleteAll] @ map (\<lambda>r. Insert r now) xs @ cs) (connect db) =
   run cs \<lparr>disk = create_table db, txn = Some (Some
     \<lparr>table_rows = new_rows (sequence_of db) now xs,
      sqlite_sequence = sequence_of db + int (length xs)\<rparr>)\<rparr>"
proof -
  obtain t where t: "create_table db = Some t" using create_table_Some by blast
  have "run (map (\<lambda>r. Insert r now) xs @ cs)
           \<lparr>disk = create_table db, txn = Some (Some \<lparr>table_rows = [], sqlite_sequence = sqlite_sequence t\<rparr>)\<rparr> =
         run cs \<lparr>disk = create_table db, txn = Some (Some \<lparr>table_rows = [] @ new_rows (sqlite_sequence t) now xs,
           sqlite_sequence = sqlite_sequence t + int (length xs)\<rparr>)\<rparr>"
    by (rule run_inserts) simp
  then show ?thesis
    using run_prefix_create [of "DeleteAll # map (\<lambda>r. Insert r now) xs @ cs" db]
      run_delete [OF t, of "map (\<lambda>r. Insert r now) xs @ cs"]
    by (simp add: t sequence_of_create_table [OF t])
qed

subsection \<open>The guard on the aggregate\<close>







subsection \<open>Replacing the table\<close>

text \<open>
  Claim C5, as amended. Running the loader twice in succession with the same non-empty
  aggregate leaves the table with the same number of rows as running it once, and row
  for row the same \<^verbatim>\<open>project_id\<close>, \<^verbatim>\<open>total_hours\<close> and \<^verbatim>\<open>total_payment\<close>, those of the
  aggregate: nothing is duplicated or appended. (The \<^verbatim>\<open>id\<close> and \<^verbatim>\<open>analysis_date\<close> of
  the rows are those of the second run.)
\<close>

theorem loader_twice_same_data:
  assumes "df \<noteq> []"
  shows "length (rows_of (snd (load_to_database (Some df) now2
                   (snd (load_to_database (Some df) now1 db))))) =
         length (rows_of (snd (load_to_database (Some df) now1 db))) \<and>
         map row_data (rows_of (snd (load_to_database (Some df) now2
                   (snd (load_to_database (Some df) now1 db))))) =
         map row_data (rows_of (snd (load_to_database (Some df) now1 db))) \<and>
         map row_data (rows_of (snd (load_to_database (Some df) now2
                   (snd (load_to_database (Some df) now1 db))))) = df"
  using assms
  by (simp add: load_to_database_nonempty rows_of_def loaded_rows_data)
    (simp add: loaded_def new_rows_length)

theorem loader_twice_same_data_witness:
  "sample_fot \<noteq> [] \<and>
   map row_data (rows_of (snd (load_to_database (Some sample_fot) later_time
     (snd (load_to_database (Some sample_fot) sample_time None))))) = sample_fot"
proof -
  have ne: "sample_fot \<noteq> []" by (simp add: sample_fot_def)
  from loader_twice_same_data [OF ne, of later_time sample_time None] ne
  show ?thesis by blast
qed

text \<open>
  The claim as stated, with all the values of the rows: on a new database one run stores
  the row under id 1, a second run with the same aggregate and the same clock reading
  stores it under id 2.
\<close>

theorem loader_twice_counterexample:
  "rows_of (snd (load_to_database (Some sample_fot) sample_time None)) =
     [\<lparr>row_id = 1, row_project_id = 1, row_total_hours = 10, row_total_payment = 500,
       analysis_date = sample_time\<rparr>] \<and>
   rows_of (snd (load_to_database (Some sample_fot) sample_time
     (snd (load_to_database (Some sample_fot) sample_time None)))) =
     [\<lparr>row_id = 2, row_project_id = 1, row_total_hours = 10, row_total_payment = 500,
       analysis_date = sample_time\<rparr>]"
proof -
  have ne: "sample_fot \<noteq> []" by (simp add: sample_fot_def)
  show ?thesis
    by (simp add: load_to_database_nonempty [OF ne] rows_of_def loaded_def sequence_of_def)
      (simp add: sample_fot_def)
qed

text \<open>
  Claim C9. Of two consecutive runs of the loader, every id of the second is larger than
  every id of the first, the ids of a run increase strictly in the order of its rows,
  and no id occurs in both: the counter of the table grows with every run, and the ids
  of a run lie above the counter it found and up to the counter it leaves, although
  the run has deleted every row first. With the same aggregate the rows of the two runs agree in
  \<^verbatim>\<open>project_id\<close>, \<^verbatim>\<open>total_hours\<close> and \<^verbatim>\<open>total_payment\<close> and differ in \<^verbatim>\<open>id\<close>.
\<close>

theorem loader_ids_increase:
  assumes "df1 \<noteq> []" and "df2 \<noteq> []"
    and "db1 = snd (load_to_database (Some df1) now1 db)"
    and "db2 = snd (load_to_database (Some df2) now2 db1)"
  shows "(\<forall>r1 \<in> set (rows_of db1). \<forall>r2 \<in> set (rows_of db2). row_id r1 < row_id r2) \<and>
         sorted_wrt (<) (map row_id (rows_of db2)) \<and>
         set (map row_id (rows_of db1)) \<inter> set (map row_id (rows_of db2)) = {} \<and>
         (\<forall>r1 \<in> set (rows_of db1). row_id r1 \<le> sequence_of db1) \<and>
         (\<forall>r2 \<in> set (rows_of db2). sequence_of db1 < row_id r2 \<and> row_id r2 \<le> sequence_of db2) \<and>
         sequence_of db1 < sequence_of db2 \<and>
         (df1 = df2 \<longrightarrow> map row_data (rows_of db2) = map row_data (rows_of db1) \<and>
            (\<forall>i < length df1. row_id (rows_of db1 ! i) < row_id (rows_of db2 ! i)))"
proof -
  let ?t1 = "loaded df1 now1 db"
  let ?t2 = "loaded df2 now2 (Some ?t1)"
  have db1: "db1 = Some ?t1" using assms(1,3) by (simp add: load_to_database_nonempty)
  have db2: "db2 = Some ?t2" using assms(2,4) db1 by (simp add: load_to_database_nonempty)
  have lt: "row_id r1 < row_id r2"
    if "r1 \<in> set (table_rows ?t1)" and "r2 \<in> set (table_rows ?t2)" for r1 r2
    using loaded_consistent [OF that(1)] loaded_ids_gt [OF that(2)] by simp
  have a: "\<forall>r1 \<in> set (rows_of db1). \<forall>r2 \<in> set (rows_of db2). row_id r1 < row_id r2"
    using lt by (simp add: db1 db2 rows_of_def)
  have b: "sorted_wrt (<) (map row_id (rows_of db2))"
    by (simp add: db2 rows_of_def loaded_ids_sorted)
  have c: "set (map row_id (rows_of db1)) \<inter> set (map row_id (rows_of db2)) = {}"
    using a by fastforce
  have d: "map row_data (rows_of db2) = map row_data (rows_of db1) \<and>
            (\<forall>i < length df1. row_id (rows_of db1 ! i) < row_id (rows_of db2 ! i))"
    if eq: "df1 = df2"
  proof -
    have len1: "length (rows_of db1) = length df1" and len2: "length (rows_of db2) = length df1"
      by (simp_all add: db1 db2 rows_of_def loaded_def new_rows_length eq)
    have "map row_data (rows_of db2) = map row_data (rows_of db1)"
      by (simp add: db1 db2 rows_of_def loaded_rows_data eq)
    moreover have "\<forall>i < length df1. row_id (rows_of db1 ! i) < row_id (rows_of db2 ! i)"
      using a len1 len2 by (metis nth_mem)
    ultimately show ?thesis by blast
  qed
  have e: "\<forall>r1 \<in> set (rows_of db1). row_id r1 \<le> sequence_of db1"
    using loaded_consistent [of _ df1 now1 db] by (simp add: db1 rows_of_def sequence_of_def)
  have f: "\<forall>r2 \<in> set (rows_of db2). sequence_of db1 < row_id r2 \<and> row_id r2 \<le> sequence_of db2"
    using loaded_consistent [of _ df2 now2 "Some ?t1"] loaded_ids_gt [of _ df2 now2 ?t1]
    by (simp add: db1 db2 rows_of_def sequence_of_def)
  have g: "sequence_of db1 < sequence_of db2"
    using assms(2) by (simp add: db1 db2 sequence_of_def loaded_def)
  from a b c d e f g show ?thesis by blast
qed

theorem loader_ids_increase_witness:
  "sample_fot \<noteq> [] \<and>
   row_id (rows_of (snd (load_to_database (Some sample_fot) sample_time None)) ! 0) <
   row_id (rows_of (snd (load_to_database (Some sample_fot) later_time
     (snd (load_to_database (Some sample_fot) sample_time None)))) ! 0)"
proof -
  let ?db1 = "snd (load_to_database (Some sample_fot) sample_time None)"
  let ?db2 = "snd (load_to_database (Some sample_fot) later_time ?db1)"
  have ne: "sample_fot \<noteq> []" by (simp add: sample_fot_def)
  from loader_ids_increase [OF ne ne refl refl, of sample_time None later_time]
  have "\<forall>i < length sample_fot. row_id (rows_of ?db1 ! i) < row_id (rows_of ?db2 ! i)"
    by blast
  moreover have "0 < length sample_fot" using ne by simp
  ultimately show ?thesis using ne by blast
qed

subsection \<open>One transaction\<close>

text \<open>
  Claim C6. The delete and the inserts of a run are one transaction: whenever the run
  stops before the commit that follows the inserts (after any number \<open>k\<close> of its
  statements, up to the last insert), the file holds the table with the rows it had
  before the run; from that commit on it holds the complete result of the run. No other
  state of the table is ever in the file.
\<close>

theorem loader_single_transaction:
  assumes "df \<noteq> []"
  shows "(k \<le> length df + 2 \<longrightarrow>
            interrupted_after k df now db = (if k = 0 then db else create_table db) \<and>
            rows_of (interrupted_after k df now db) = rows_of db) \<and>
         (length df + 2 < k \<longrightarrow>
            interrupted_after k df now db = snd (load_to_database (Some df) now db) \<and>
            map row_data (rows_of (interrupted_after k df now db)) = df)"
proof (intro conjI impI)
  assume k: "k \<le> length df + 2"
  show early: "interrupted_after k df now db = (if k = 0 then db else create_table db)"
  proof -
    consider "k = 0" | "k = 1" | "2 \<le> k" by linarith
    then show ?thesis
    proof cases
      case 1
      then show ?thesis by (simp add: interrupted_after_def connect_def close_def)
    next
      case 2
      then show ?thesis
        by (simp add: interrupted_after_def take_loader_statements connect_def close_def)
    next
      case 3
      with k have "take k (loader_statements df now) =
          [CreateTable, DeleteAll] @ map (\<lambda>r. Insert r now) (take (k - 2) df) @ []"
        by (simp add: take_loader_statements)
      then show ?thesis
        using 3 run_started [of now "take (k - 2) df" "[]" db]
        by (simp add: interrupted_after_def close_def)
    qed
  qed
  show "rows_of (interrupted_after k df now db) = rows_of db"
    unfolding early by (simp add: rows_of_create_table)
next
  assume k: "length df + 2 < k"
  then have "take (k - 2 - length df) [Commit, Commit] = [Commit] \<or>
      take (k - 2 - length df) [Commit, Commit] = [Commit, Commit]"
    by (cases "k - 2 - length df"; cases "k - 3 - length df") (auto simp: take_Cons')
  moreover from k have "take k (loader_statements df now) =
      [CreateTable, DeleteAll] @ map (\<lambda>r. Insert r now) df @ take (k - 2 - length df) [Commit, Commit]"
    by (simp add: take_loader_statements)
  ultimately obtain cs where cs: "cs = [Commit] \<or> cs = [Commit, Commit]"
    and tk: "take k (loader_statements df now) =
      [CreateTable, DeleteAll] @ map (\<lambda>r. Insert r now) df @ cs"
    by metis
  have "run (take k (loader_statements df now)) (connect db) =
      run cs \<lparr>disk = create_table db, txn = Some (Some
       \<lparr>table_rows = new_rows (sequence_of db) now df,
        sqlite_sequence = sequence_of db + int (length df)\<rparr>)\<rparr>"
    unfolding tk by (rule run_started)
  also have "\<dots> = (None, \<lparr>disk = Some (loaded df now db), txn = None\<rparr>)"
    using cs by (auto simp: loaded_def)
  finally have "interrupted_after k df now db = Some (loaded df now db)"
    by (simp add: interrupted_after_def close_def)
  then show "interrupted_after k df now db = snd (load_to_database (Some df) now db)"
    and "map row_data (rows_of (interrupted_after k df now db)) = df"
    using assms by (simp_all add: load_to_database_nonempty rows_of_def loaded_rows_data)
qed

theorem loader_single_transaction_witness:
  "sample_fot \<noteq> [] \<and>
   rows_of (interrupted_after 3 sample_fot later_time
     (snd (load_to_database (Some sample_fot) sample_time None))) =
   rows_of (snd (load_to_database (Some sample_fot) sample_time None)) \<and>
   interrupted_after 4 sample_fot later_time
     (snd (load_to_database (Some sample_fot) sample_time None)) =
   snd (load_to_database (Some sample_fot) later_time
     (snd (load_to_database (Some sample_fot) sample_time None)))"
proof -
  let ?db1 = "snd (load_to_database (Some sample_fot) sample_time None)"
  have ne: "sample_fot \<noteq> []" and len: "length sample_fot = 1"
    by (simp_all add: sample_fot_def)
  from loader_single_transaction [OF ne, of 3 later_time ?db1] len
  have early: "rows_of (interrupted_after 3 sample_fot later_time ?db1) = rows_of ?db1"
    by (simp add: rows_of_create_table)
  from loader_single_transaction [OF ne, of 4 later_time ?db1] len
  have late: "interrupted_after 4 sample_fot later_time ?db1 =
      snd (load_to_database (Some sample_fot) later_time ?db1)"
    by simp
  from ne early late show ?thesis by blast
qed

section \<open>Properties of the report generator\<close>

lemma fold_append_blocks: "fold (\<lambda>x acc. acc @ f x) xs init = init @ concat (map f xs)"
  by (induction xs arbitrary: init) simp_all

lemma read_sql_table:
  "read_sql (connect (Some t)) = Inr (sort_key (\<lambda>r. - row_total_payment r) (table_rows t))"
  by (simp add: read_sql_def connect_def view_def)

lemma sort_key_descending:
  "sorted_wrt (\<lambda>a b. row_total_payment b \<le> row_total_payment a)
     (sort_key (\<lambda>r. - row_total_payment r) rows)"
proof -
  have "sorted (map (\<lambda>r. - row_total_payment r) (sort_key (\<lambda>r. - row_total_payment r) rows))"
    by (rule sorted_sort_key)
  then show ?thesis by (simp add: sorted_wrt_map)
qed

lemma round_half_even_near: "\<bar>of_int (round_half_even y) - y\<bar> \<le> 1 / 2"
proof -
  have "of_int \<lfloor>y\<rfloor> \<le> y" and "y < of_int \<lfloor>y\<rfloor> + 1" by linarith+
  then show ?thesis
    by (auto simp: round_half_even_def Let_def)
qed

lemma round_half_even_nonneg: "0 \<le> y \<Longrightarrow> 0 \<le> round_half_even y"
  by (auto simp: round_half_even_def Let_def)

lemma hundredths_near: "\<bar>real (hundredths x) / 100 - \<bar>x\<bar>\<bar> \<le> 1 / 200"
proof -
  let ?y = "\<bar>x\<bar> * 100"
  have nn: "0 \<le> round_half_even ?y" by (rule round_half_even_nonneg) simp
  then have "real (hundredths x) = of_int (round_half_even ?y)"
    by (simp add: hundredths_def)
  moreover have "\<bar>of_int (round_half_even ?y) - ?y\<bar> \<le> 1 / 2" by (rule round_half_even_near)
  ultimately have "\<bar>real (hundredths x) - ?y\<bar> \<le> 1 / 2" by simp
  then show ?thesis by (simp add: abs_le_iff field_simps)
qed

lemma format_2f_examples:
  "format_2f 0.125 = ''0.12''" "format_2f 3.5 = ''3.50''" "format_2f (- 0.375) = ''-0.38''"
  by code_simp+

lemma strftime_example:
  "strftime \<lparr>dt_year = 2025, dt_month = 3, dt_day = 7, dt_hour = 9, dt_minute = 5,
     dt_second = 0\<rparr> = ''2025-03-07 09:05:00''"
  by code_simp

lemma generate_report_table:
  "generate_report float_str now (Some t) fs =
     (let df = sort_key (\<lambda>r. - row_total_payment r) (table_rows t);
          report = report_header now (length df) @ concat (map (report_block float_str) df)
      in Inr (report_created_message,
              fs(report_file \<mapsto> report, csv_file \<mapsto> to_csv float_str df),
              \<lparr>xcom_report = report, xcom_report_file_path = report_file,
               xcom_csv_file_path = csv_file, xcom_result_data = df\<rparr>))"
  by (simp add: generate_report_def read_sql_table fold_append_blocks Let_def)

text \<open>
  Claim C7. When the table exists and has no rows, the report generator returns
  normally; the text report is the header alone, with the time of generation and the
  row count 0, and the CSV file is the line of the column names; both files are
  written. For every table, the rows read back are the rows of the table in descending
  order of \<^verbatim>\<open>total_payment\<close>, and the report is the header followed by one block per
  row in that order; the block of a row contains its \<^verbatim>\<open>total_hours\<close> and its
  \<^verbatim>\<open>total_payment\<close> in the format \<^verbatim>\<open>:.2f\<close>, which writes the sign, the integer part, a
  point and two digits of the nearest hundredth.
\<close>

theorem report_layout:
  "generate_report float_str now (Some \<lparr>table_rows = [], sqlite_sequence = s\<rparr>) fs =
     Inr (report_created_message,
          fs(report_file \<mapsto> report_head_a @ strftime now @ report_head_b @ ''0'' @ report_head_c,
             csv_file \<mapsto> csv_header @ [CHR 0x0A]),
          \<lparr>xcom_report = report_head_a @ strftime now @ report_head_b @ ''0'' @ report_head_c,
           xcom_report_file_path = report_file, xcom_csv_file_path = csv_file,
           xcom_result_data = []\<rparr>) \<and>
   (\<exists>df. generate_report float_str now (Some t) fs =
           Inr (report_created_message,
                fs(report_file \<mapsto>
                     report_header now (length df) @ concat (map (report_block float_str) df),
                   csv_file \<mapsto> to_csv float_str df),
                \<lparr>xcom_report =
                   report_header now (length df) @ concat (map (report_block float_str) df),
                 xcom_report_file_path = report_file, xcom_csv_file_path = csv_file,
                 xcom_result_data = df\<rparr>) \<and>
         mset df = mset (table_rows t) \<and>
         sorted_wrt (\<lambda>a b. row_total_payment b \<le> row_total_payment a) df) \<and>
   sublist (float_str (row_total_hours row)) (report_block float_str row) \<and>
   sublist (format_2f (row_total_payment row)) (report_block float_str row) \<and>
   (\<exists>n. format_2f x = (if x < 0 then ''-'' else []) @ str_nat (n div 100) @ ''.'' @
           [digit_char (n mod 100 div 10), digit_char (n mod 10)] \<and>
        \<bar>real n / 100 - \<bar>x\<bar>\<bar> \<le> 1 / 200)"
proof (intro conjI)
  have "str_nat 0 = ''0''" by code_simp
  then show "generate_report float_str now (Some \<lparr>table_rows = [], sqlite_sequence = s\<rparr>) fs =
     Inr (report_created_message,
          fs(report_file \<mapsto> report_head_a @ strftime now @ report_head_b @ ''0'' @ report_head_c,
             csv_file \<mapsto> csv_header @ [CHR 0x0A]),
          \<lparr>xcom_report = report_head_a @ strftime now @ report_head_b @ ''0'' @ report_head_c,
           xcom_report_file_path = report_file, xcom_csv_file_path = csv_file,
           xcom_result_data = []\<rparr>)"
    by (simp add: generate_report_table report_header_def to_csv_def Let_def)
next
  let ?df = "sort_key (\<lambda>r. - row_total_payment r) (table_rows t)"
  have "mset ?df = mset (table_rows t)" by simp
  moreover have "sorted_wrt (\<lambda>a b. row_total_payment b \<le> row_total_payment a) ?df"
    by (rule sort_key_descending)
  ultimately show "\<exists>df. generate_report float_str now (Some t) fs =
           Inr (report_created_message,
                fs(report_file \<mapsto>
                     report_header now (length df) @ concat (map (report_block float_str) df),
                   csv_file \<mapsto> to_csv float_str df),
                \<lparr>xcom_report =
                   report_header now (length df) @ concat (map (report_block float_str) df),
                 xcom_report_file_path = report_file, xcom_csv_file_path = csv_file,
                 xcom_result_data = df\<rparr>) \<and>
         mset df = mset (table_rows t) \<and>
         sorted_wrt (\<lambda>a b. row_total_payment b \<le> row_total_payment a) df"
    using generate_report_table [of float_str now t fs] by (simp add: Let_def)
next
  have "report_block float_str row =
      (report_block_a @ str_int (row_project_id row) @ report_block_b) @
      float_str (row_total_hours row) @
      (report_block_c @ format_2f (row_total_payment row) @ report_block_d)"
    by (simp add: report_block_def)
  then show "sublist (float_str (row_total_hours row)) (report_block float_str row)"
    unfolding sublist_def by blast
next
  have "report_block float_str row =
      (report_block_a @ str_int (row_project_id row) @ report_block_b @
       float_str (row_total_hours row) @ report_block_c) @
      format_2f (row_total_payment row) @ report_block_d"
    by (simp add: report_block_def)
  then show "sublist (format_2f (row_total_payment row)) (report_block float_str row)"
    unfolding sublist_def by blast
next
  show "\<exists>n. format_2f x = (if x < 0 then ''-'' else []) @ str_nat (n div 100) @ ''.'' @
           [digit_char (n mod 100 div 10), digit_char (n mod 10)] \<and>
        \<bar>real n / 100 - \<bar>x\<bar>\<bar> \<le> 1 / 200"
    using hundredths_near [of x] by (intro exI [of _ "hundredths x"]) (simp add: format_2f_def)
qed

section \<open>Properties of the notifier\<close>

lemma attachments_filter: "attachments path_exists = filter path_exists [report_file, csv_file]"
  by (simp add: attachments_def)

lemma fallback_mentions_error: "sublist (str_error e) (html_content (fallback_mail ds e))"
proof -
  have "html_content (fallback_mail ds e) =
      (fallback_body_a @ ds @ fallback_body_b) @ str_error e @ fallback_body_c"
    by (simp add: fallback_mail_def)
  then show ?thesis unfolding sublist_def by blast
qed

text \<open>
  Claim C8, as amended. When composing or sending the HTML message fails with an error
  \<open>e\<close>, the notifier never returns normally. It tries to send the fallback message, which
  has no attachments and quotes the text of \<open>e\<close> in its body: if that message is sent,
  it is the only message sent and \<open>e\<close> is raised again; if sending it fails too, no message
  is sent and the error of that second attempt is the one raised.
\<close>

theorem notifier_failure_paths:
  assumes "try_send float_str transport path_exists ds result_data = Inl e"
  shows "(transport (fallback_mail ds e) = None \<longrightarrow>
            send_email_with_attachments float_str transport path_exists ds result_data =
              (Inl e, [fallback_mail ds e])) \<and>
         (\<forall>e'. transport (fallback_mail ds e) = Some e' \<longrightarrow>
            send_email_with_attachments float_str transport path_exists ds result_data =
              (Inl e', [])) \<and>
         (\<exists>x. fst (send_email_with_attachments float_str transport path_exists ds result_data) =
            Inl x) \<and>
         files (fallback_mail ds e) = [] \<and>
         sublist (str_error e) (html_content (fallback_mail ds e))"
proof (intro conjI allI impI)
  assume "transport (fallback_mail ds e) = None"
  with assms show "send_email_with_attachments float_str transport path_exists ds result_data =
      (Inl e, [fallback_mail ds e])"
    by (simp add: send_email_with_attachments_def)
next
  fix e' assume "transport (fallback_mail ds e) = Some e'"
  with assms show "send_email_with_attachments float_str transport path_exists ds result_data =
      (Inl e', [])"
    by (simp add: send_email_with_attachments_def)
next
  show "\<exists>x. fst (send_email_with_attachments float_str transport path_exists ds result_data) =
      Inl x"
    using assms
    by (cases "transport (fallback_mail ds e)") (simp_all add: send_email_with_attachments_def)
next
  show "files (fallback_mail ds e) = []" by (simp add: fallback_mail_def)
next
  show "sublist (str_error e) (html_content (fallback_mail ds e))"
    by (rule fallback_mentions_error)
qed

theorem notifier_failure_paths_witness:
  "try_send (\<lambda>x. []) (\<lambda>m. None) (\<lambda>p. True) ''2025-01-01'' None =
     Inl (TypeError not_iterable_message) \<and>
   send_email_with_attachments (\<lambda>x. []) (\<lambda>m. None) (\<lambda>p. True) ''2025-01-01'' None =
     (Inl (TypeError not_iterable_message),
      [fallback_mail ''2025-01-01'' (TypeError not_iterable_message)])"
proof -
  have t: "try_send (\<lambda>x. []) (\<lambda>m. None) (\<lambda>p. True) ''2025-01-01'' None =
      Inl (TypeError not_iterable_message)"
    by (simp add: try_send_def compose_html_def)
  from notifier_failure_paths [OF t] t show ?thesis by simp
qed

text \<open>
  The claim as stated, for every failure: with a mail system that refuses every message
  (here with an error naming the subject it refused), no fallback message is sent, and
  the error that leaves the notifier is that of the fallback, not the original one.
\<close>

theorem notifier_fallback_fails_counterexample:
  "try_send (\<lambda>x. []) (\<lambda>m. Some (MailError (subject m))) (\<lambda>p. True) ''2025-01-01'' (Some []) =
     Inl (MailError mail_subject) \<and>
   send_email_with_attachments (\<lambda>x. []) (\<lambda>m. Some (MailError (subject m))) (\<lambda>p. True)
     ''2025-01-01'' (Some []) = (Inl (MailError fallback_subject), []) \<and>
   MailError fallback_subject \<noteq> MailError mail_subject"
proof -
  have "fallback_subject \<noteq> mail_subject"
    by (simp add: fallback_subject_def mail_subject_def)
  then show ?thesis
    by (simp add: send_email_with_attachments_def try_send_def compose_html_def report_mail_def
        fallback_mail_def)
qed

text \<open>
  Claim C10. Whichever of the two files exist, when the HTML is composed and the mail
  system takes the message, the notifier returns normally after sending that one
  message, whose attachments are those of the two files that exist (both, one or none):
  a missing file leads neither to the fallback message nor to a failure.
\<close>

theorem notifier_missing_files:
  assumes "compose_html float_str ds result_data = Inr html"
    and "transport (report_mail html (attachments path_exists)) = None"
  shows "send_email_with_attachments float_str transport path_exists ds result_data =
           (Inr mail_sent_message, [report_mail html (attachments path_exists)]) \<and>
         files (report_mail html (attachments path_exists)) =
           filter path_exists [report_file, csv_file]"
  using assms
  by (simp add: send_email_with_attachments_def try_send_def attachments_filter report_mail_def)

theorem notifier_missing_files_witness:
  "compose_html (\<lambda>x. []) ''2025-01-01'' (Some []) =
     Inr (html_head_a @ ''2025-01-01'' @ html_head_b @ html_tail) \<and>
   send_email_with_attachments (\<lambda>x. []) (\<lambda>m. None) (\<lambda>p. False) ''2025-01-01'' (Some []) =
     (Inr mail_sent_message,
      [report_mail (html_head_a @ ''2025-01-01'' @ html_head_b @ html_tail) []])"
proof -
  have c: "compose_html (\<lambda>x. []) ''2025-01-01'' (Some []) =
      Inr (html_head_a @ ''2025-01-01'' @ html_head_b @ html_tail)"
    by (simp add: compose_html_def)
  have a: "attachments (\<lambda>p. False) = []" by (simp add: attachments_def)
  have "(\<lambda>m. None :: py_error option)
      (report_mail (html_head_a @ ''2025-01-01'' @ html_head_b @ html_tail)
        (attachments (\<lambda>p. False))) = None"
    by simp
  from notifier_missing_files [OF c this] c a show ?thesis by simp
qed

end
